theory Spec2Isabelle
  imports Complex_Main "HOL-Library.Word" "HOL-Library.Signed_Division"
    "HOL-Library.Multiset"
begin

section \<open>Floating-point values of the C++ code\<close>

text \<open>
  The C++ code computes in \<^verbatim>\<open>float\<close> (IEEE-754 binary32) and, in one place, in
  \<^verbatim>\<open>double\<close> (binary64). A value is a finite real on the format's grid, an infinity
  or a NaN. The two zeros are identified: no operation of the modelled functions tells
  them apart except division by zero, whose result is modelled for the positive zero.
  Every arithmetic result is rounded to nearest, ties to even, by \<open>fp_round\<close>.
\<close>

datatype fp = Fin real | PInf | NInf | NaN

record fp_format =
  mant_bits :: nat   \<comment> \<open>stored fraction bits: 23 for binary32, 52 for binary64\<close>
  exp_max :: nat     \<comment> \<open>largest exponent: 127, 1023\<close>

definition binary32 :: fp_format where
  "binary32 = \<lparr>mant_bits = 23, exp_max = 127\<rparr>"

definition binary64 :: fp_format where
  "binary64 = \<lparr>mant_bits = 52, exp_max = 1023\<rparr>"

text \<open>The exponent of a magnitude: \<open>e\<close> with \<open>2^e \<le> m < 2^(e+1)\<close>, found by halving
  or doubling, and clamped to the format's exponent range (below: subnormals).\<close>

fun expo_up :: "nat \<Rightarrow> int \<Rightarrow> real \<Rightarrow> int" where
  "expo_up 0 e m = e"
| "expo_up (Suc n) e m = (if 2 \<le> m then expo_up n (e + 1) (m / 2) else e)"

fun expo_dn :: "nat \<Rightarrow> int \<Rightarrow> real \<Rightarrow> int" where
  "expo_dn 0 e m = e"
| "expo_dn (Suc n) e m = (if m < 1 then expo_dn n (e - 1) (m * 2) else e)"

definition fp_expo :: "fp_format \<Rightarrow> real \<Rightarrow> int" where
  "fp_expo fmt x =
     (if 1 \<le> \<bar>x\<bar> then expo_up (exp_max fmt) 0 \<bar>x\<bar>
      else expo_dn (exp_max fmt - 1) 0 \<bar>x\<bar>)"

definition round_even :: "real \<Rightarrow> int" where
  "round_even q =
     (let f = \<lfloor>q\<rfloor>; d = q - of_int f in
      if d < 1 / 2 then f else if 1 / 2 < d then f + 1
      else if even f then f else f + 1)"

definition fp_ulp :: "fp_format \<Rightarrow> real \<Rightarrow> real" where
  "fp_ulp fmt x = 2 powi (fp_expo fmt x - int (mant_bits fmt))"

definition fp_round :: "fp_format \<Rightarrow> real \<Rightarrow> fp" where
  "fp_round fmt x =
     (let u = fp_ulp fmt x; r = of_int (round_even (x / u)) * u in
      if 2 ^ (exp_max fmt + 1) \<le> r then PInf
      else if r \<le> - (2 ^ (exp_max fmt + 1)) then NInf
      else Fin r)"

fun fp_neg :: "fp \<Rightarrow> fp" where
  "fp_neg (Fin a) = Fin (- a)"
| "fp_neg PInf = NInf"
| "fp_neg NInf = PInf"
| "fp_neg NaN = NaN"

fun fp_abs :: "fp \<Rightarrow> fp" where
  "fp_abs (Fin a) = Fin \<bar>a\<bar>"
| "fp_abs PInf = PInf"
| "fp_abs NInf = PInf"
| "fp_abs NaN = NaN"

fun fp_add :: "fp_format \<Rightarrow> fp \<Rightarrow> fp \<Rightarrow> fp" where
  "fp_add fmt (Fin a) (Fin b) = fp_round fmt (a + b)"
| "fp_add fmt NaN _ = NaN"
| "fp_add fmt _ NaN = NaN"
| "fp_add fmt PInf NInf = NaN"
| "fp_add fmt NInf PInf = NaN"
| "fp_add fmt PInf _ = PInf"
| "fp_add fmt NInf _ = NInf"
| "fp_add fmt _ PInf = PInf"
| "fp_add fmt _ NInf = NInf"

definition fp_sub :: "fp_format \<Rightarrow> fp \<Rightarrow> fp \<Rightarrow> fp" where
  "fp_sub fmt a b = fp_add fmt a (fp_neg b)"

text \<open>The sign of a value that is not a NaN: \<open>-1\<close>, \<open>0\<close> or \<open>1\<close>.\<close>

fun fp_sgn :: "fp \<Rightarrow> int" where
  "fp_sgn (Fin a) = (if a < 0 then - 1 else if a = 0 then 0 else 1)"
| "fp_sgn PInf = 1"
| "fp_sgn NInf = - 1"
| "fp_sgn NaN = 0"

definition fp_inf :: "int \<Rightarrow> fp" where
  "fp_inf s = (if s = 0 then NaN else if 0 < s then PInf else NInf)"

fun fp_mul :: "fp_format \<Rightarrow> fp \<Rightarrow> fp \<Rightarrow> fp" where
  "fp_mul fmt (Fin a) (Fin b) = fp_round fmt (a * b)"
| "fp_mul fmt NaN _ = NaN"
| "fp_mul fmt _ NaN = NaN"
| "fp_mul fmt a b = fp_inf (fp_sgn a * fp_sgn b)"

fun fp_div :: "fp_format \<Rightarrow> fp \<Rightarrow> fp \<Rightarrow> fp" where
  "fp_div fmt (Fin a) (Fin b) =
     (if b = 0 then fp_inf (fp_sgn (Fin a)) else fp_round fmt (a / b))"
| "fp_div fmt NaN _ = NaN"
| "fp_div fmt _ NaN = NaN"
| "fp_div fmt (Fin a) _ = Fin 0"
| "fp_div fmt a (Fin b) = fp_inf (fp_sgn a * (if b < 0 then - 1 else 1))"
| "fp_div fmt _ _ = NaN"

fun fp_less :: "fp \<Rightarrow> fp \<Rightarrow> bool" where
  "fp_less (Fin a) (Fin b) = (a < b)"
| "fp_less NaN _ = False"
| "fp_less _ NaN = False"
| "fp_less _ NInf = False"
| "fp_less PInf _ = False"
| "fp_less _ _ = True"

fun fp_eq :: "fp \<Rightarrow> fp \<Rightarrow> bool" where
  "fp_eq NaN _ = False"
| "fp_eq _ NaN = False"
| "fp_eq a b = (a = b)"

definition fp_le :: "fp \<Rightarrow> fp \<Rightarrow> bool" where
  "fp_le a b = (fp_less a b \<or> fp_eq a b)"

text \<open>\<^verbatim>\<open>uIsFinite\<close>\<close>

fun uIsFinite :: "fp \<Rightarrow> bool" where
  "uIsFinite (Fin a) = True"
| "uIsFinite _ = False"

text \<open>
  Conversion of a floating value to a C++ integer type truncates towards zero. When the
  truncated value does not fit \<^verbatim>\<open>int\<close>, and for infinities and NaN, C++ leaves the
  result open; the model takes what the conversion instruction of the x86-64 builds
  returns, the value \<open>-2^31\<close>. A conversion to \<^verbatim>\<open>unsigned short\<close> is that
  conversion to \<^verbatim>\<open>int\<close> followed by the cut to the low 16 bits.
\<close>

definition trunc0 :: "real \<Rightarrow> int" where
  "trunc0 r = (if 0 \<le> r then \<lfloor>r\<rfloor> else \<lceil>r\<rceil>)"

fun fp_to_i32 :: "fp \<Rightarrow> int" where
  "fp_to_i32 (Fin r) =
     (if - (2 ^ 31) \<le> trunc0 r \<and> trunc0 r \<le> 2 ^ 31 - 1 then trunc0 r else - (2 ^ 31))"
| "fp_to_i32 _ = - (2 ^ 31)"

definition fp_to_u16 :: "fp \<Rightarrow> 16 word" where
  "fp_to_u16 v = word_of_int (fp_to_i32 v)"

text \<open>Conversion of an integer to \<^verbatim>\<open>float\<close> or \<^verbatim>\<open>double\<close> rounds to the format.\<close>

definition fp_of_int :: "fp_format \<Rightarrow> int \<Rightarrow> fp" where
  "fp_of_int fmt n = fp_round fmt (of_int n)"

text \<open>A decimal literal of the source, such as \<^verbatim>\<open>0.001f\<close>, is the rounded value.\<close>

definition fp_lit :: "fp_format \<Rightarrow> real \<Rightarrow> fp" where
  "fp_lit fmt x = fp_round fmt x"

text \<open>Single-precision operations, and the conversion of a \<^verbatim>\<open>double\<close> to
  \<^verbatim>\<open>float\<close>.\<close>

definition fadd :: "fp \<Rightarrow> fp \<Rightarrow> fp" where
  "fadd = fp_add binary32"

definition fsub :: "fp \<Rightarrow> fp \<Rightarrow> fp" where
  "fsub = fp_sub binary32"

definition fmul :: "fp \<Rightarrow> fp \<Rightarrow> fp" where
  "fmul = fp_mul binary32"

definition fdiv :: "fp \<Rightarrow> fp \<Rightarrow> fp" where
  "fdiv = fp_div binary32"

definition float_of_int :: "int \<Rightarrow> fp" where
  "float_of_int = fp_of_int binary32"

definition float_lit :: "real \<Rightarrow> fp" where
  "float_lit = fp_lit binary32"

fun fp_cast :: "fp_format \<Rightarrow> fp \<Rightarrow> fp" where
  "fp_cast fmt (Fin r) = fp_round fmt r"
| "fp_cast fmt v = v"

section \<open>Images\<close>

text \<open>A \<^verbatim>\<open>cv::Mat\<close> with one sample per pixel: \<open>px m y x\<close> is the sample at row
  \<open>y\<close>, column \<open>x\<close>. The sample type stands for the type tag of the matrix:
  \<^verbatim>\<open>CV_16UC1\<close> is \<open>16 word mat\<close>, \<^verbatim>\<open>CV_32FC1\<close> is \<open>fp mat\<close>.\<close>

record 'a mat =
  rows :: nat
  cols :: nat
  px :: "nat \<Rightarrow> nat \<Rightarrow> 'a"

type_synonym mat16u = "16 word mat"

type_synonym mat32f = "fp mat"

text \<open>What a call can end in, other than a result: a failed assertion
  (\<^verbatim>\<open>UASSERT\<close>, \<^verbatim>\<open>CV_Assert\<close>).\<close>

datatype error = AssertionFailed

text \<open>A loop over \<open>xs\<close> that threads a state and stops at the first error.\<close>

fun foldE :: "('a \<Rightarrow> 's \<Rightarrow> error + 's) \<Rightarrow> 'a list \<Rightarrow> 's \<Rightarrow> error + 's" where
  "foldE f [] s = Inr s"
| "foldE f (x # xs) s = (case f x s of Inl e \<Rightarrow> Inl e | Inr s' \<Rightarrow> foldE f xs s')"

definition at_set :: "(nat \<Rightarrow> nat \<Rightarrow> 'a) \<Rightarrow> nat \<Rightarrow> nat \<Rightarrow> 'a \<Rightarrow> (nat \<Rightarrow> nat \<Rightarrow> 'a)" where
  "at_set f y x v = f(y := (f y)(x := v))"

section \<open>fillRegisteredDepthHoles\<close>

text \<open>\<^verbatim>\<open>unsigned short error = 0.01*((a+c)/2);\<close> the sum and the halving are \<^verbatim>\<open>int\<close>
  arithmetic, the product is a \<^verbatim>\<open>double\<close>, truncated on assignment.\<close>

definition holeError :: "16 word \<Rightarrow> 16 word \<Rightarrow> nat" where
  "holeError a c =
     (case fp_mul binary64 (fp_lit binary64 (1 / 100))
             (fp_of_int binary64 (int ((unat a + unat c) div 2))) of
        Fin r \<Rightarrow> nat (trunc0 r)
      | _ \<Rightarrow> 0)"

text \<open>\<^verbatim>\<open>(b == 0 && a && c) || (b > a+error && b > c+error)\<close>\<close>

definition emptyOrOutlier :: "16 word \<Rightarrow> 16 word \<Rightarrow> 16 word \<Rightarrow> nat \<Rightarrow> bool" where
  "emptyOrOutlier b a c e =
     ((b = 0 \<and> a \<noteq> 0 \<and> c \<noteq> 0) \<or> (unat a + e < unat b \<and> unat c + e < unat b))"

text \<open>\<^verbatim>\<open>a>c ? a-c<=error : c-a<=error\<close>\<close>

definition consistent :: "16 word \<Rightarrow> 16 word \<Rightarrow> nat \<Rightarrow> bool" where
  "consistent a c e =
     (if unat c < unat a then unat a - unat c \<le> e else unat c - unat a \<le> e)"

text \<open>The single-hole test on the neighbours \<open>a\<close>, \<open>c\<close> of \<open>b\<close>.\<close>

definition fillSingle :: "16 word \<Rightarrow> 16 word \<Rightarrow> 16 word \<Rightarrow> bool" where
  "fillSingle a b c =
     (a \<noteq> 0 \<and> c \<noteq> 0 \<and> emptyOrOutlier b a c (holeError a c) \<and> consistent a c (holeError a c))"

text \<open>\<^verbatim>\<open>b = (a+c)/2\<close>\<close>

definition average :: "16 word \<Rightarrow> 16 word \<Rightarrow> 16 word" where
  "average a c = of_nat ((unat a + unat c) div 2)"

text \<open>The double-hole test on \<open>a\<close>, \<open>b\<close>, \<open>c\<close>, \<open>d\<close>, consecutive along one axis.\<close>

definition fillDouble :: "16 word \<Rightarrow> 16 word \<Rightarrow> 16 word \<Rightarrow> 16 word \<Rightarrow> bool" where
  "fillDouble a b c d =
     (a \<noteq> 0 \<and> d \<noteq> 0 \<and> (b = 0 \<or> c = 0) \<and>
      emptyOrOutlier b a d (holeError a d) \<and> emptyOrOutlier c a d (holeError a d) \<and>
      consistent a d (holeError a d))"

text \<open>The two values written by a double fill: \<^verbatim>\<open>tmp = (a-d)/4; b = d + tmp; c = d + 3*tmp\<close>
  when \<^verbatim>\<open>a > d\<close>, and the same from \<open>a\<close> otherwise.\<close>

definition doubleValues :: "16 word \<Rightarrow> 16 word \<Rightarrow> 16 word \<times> 16 word" where
  "doubleValues a d =
     (if unat d < unat a then
        (let tmp = (unat a - unat d) div 4 in (of_nat (unat d + tmp), of_nat (unat d + 3 * tmp)))
      else
        (let tmp = (unat d - unat a) div 4 in (of_nat (unat a + tmp), of_nat (unat a + 3 * tmp))))"

text \<open>
  The vertical part of one loop body at pixel \<open>(y, x)\<close>: the image after it, whether
  \<^verbatim>\<open>set\<close> is true, and by how much \<open>y\<close> was advanced inside the body.
\<close>

definition fillVertical ::
  "bool \<Rightarrow> bool \<Rightarrow> nat \<Rightarrow> nat \<Rightarrow> (nat \<Rightarrow> nat \<Rightarrow> 16 word) \<Rightarrow> (nat \<Rightarrow> nat \<Rightarrow> 16 word) \<times> bool \<times> nat" where
  "fillVertical horizontal fillDoubleHoles x y img =
     (let a = img (y - 1) x; b = img y x; c = img (y + 1) x in
      if fillSingle a b c then
        (at_set img y x (average a c), True, if horizontal then 0 else 1)
      else if fillDoubleHoles \<and> fillDouble a b c (img (y + 2) x) then
        (let (vb, vc) = doubleValues a (img (y + 2) x) in
         (at_set (at_set img y x vb) (y + 1) x vc, True, if horizontal then 0 else 2))
      else (img, False, 0))"

definition fillHorizontal ::
  "bool \<Rightarrow> nat \<Rightarrow> nat \<Rightarrow> (nat \<Rightarrow> nat \<Rightarrow> 16 word) \<Rightarrow> (nat \<Rightarrow> nat \<Rightarrow> 16 word)" where
  "fillHorizontal fillDoubleHoles x y img =
     (let a = img y (x - 1); b = img y x; c = img y (x + 1) in
      if fillSingle a b c then at_set img y x (average a c)
      else if fillDoubleHoles \<and> fillDouble a b c (img y (x + 2)) then
        (let (vb, vc) = doubleValues a (img y (x + 2)) in
         at_set (at_set img y x vb) y (x + 1) vc)
      else img)"

text \<open>One body of the inner loop: the image and the advance of \<open>y\<close>.\<close>

definition fillBody ::
  "bool \<Rightarrow> bool \<Rightarrow> bool \<Rightarrow> nat \<Rightarrow> nat \<Rightarrow> (nat \<Rightarrow> nat \<Rightarrow> 16 word) \<Rightarrow> (nat \<Rightarrow> nat \<Rightarrow> 16 word) \<times> nat" where
  "fillBody vertical horizontal fillDoubleHoles x y img =
     (let (img1, set, skip) =
            (if vertical then fillVertical horizontal fillDoubleHoles x y img
             else (img, False, 0)) in
      if \<not> set \<and> horizontal then (fillHorizontal fillDoubleHoles x y img1, skip)
      else (img1, skip))"

text \<open>The inner loop \<^verbatim>\<open>for(int y=1; y<rows-margin; ++y)\<close>, entered at \<open>y\<close>.\<close>

function fillColumn ::
  "bool \<Rightarrow> bool \<Rightarrow> bool \<Rightarrow> nat \<Rightarrow> nat \<Rightarrow> nat \<Rightarrow> nat \<Rightarrow> (nat \<Rightarrow> nat \<Rightarrow> 16 word) \<Rightarrow> (nat \<Rightarrow> nat \<Rightarrow> 16 word)" where
  "fillColumn vertical horizontal fillDoubleHoles nrows margin x y img =
     (if y + margin < nrows then
        (case fillBody vertical horizontal fillDoubleHoles x y img of
           (img', skip) \<Rightarrow>
             fillColumn vertical horizontal fillDoubleHoles nrows margin x (y + skip + 1) img')
      else img)"
  by pat_completeness auto
termination
  by (relation "measure (\<lambda>(v, h, f, nrows, margin, x, y, img). nrows - y)") auto

declare fillColumn.simps [simp del]

text \<open>The outer loop over the columns \<open>xs\<close>, in the order of the list.\<close>

definition fillColumns ::
  "bool \<Rightarrow> bool \<Rightarrow> bool \<Rightarrow> nat list \<Rightarrow> mat16u \<Rightarrow> mat16u" where
  "fillColumns vertical horizontal fillDoubleHoles xs m =
     m\<lparr>px := fold (\<lambda>x img. fillColumn vertical horizontal fillDoubleHoles (rows m)
                         (if fillDoubleHoles then 2 else 1) x 1 img) xs (px m)\<rparr>"

text \<open>The function of the source scans the columns \<^verbatim>\<open>for(int x=1; x<cols-margin; ++x)\<close>.\<close>

definition fillRegisteredDepthHoles :: "mat16u \<Rightarrow> bool \<Rightarrow> bool \<Rightarrow> bool \<Rightarrow> mat16u" where
  "fillRegisteredDepthHoles registeredDepth vertical horizontal fillDoubleHoles =
     fillColumns vertical horizontal fillDoubleHoles
       [1 ..< cols registeredDepth - (if fillDoubleHoles then 2 else 1)] registeredDepth"






text \<open>A 3x4 map with samples of 1000 mm above and below pixel (1,1) and at pixel (1,3),
  empty elsewhere.\<close>

definition crossMap :: mat16u where
  "crossMap = \<lparr>rows = 3, cols = 4,
     px = (\<lambda>y x. if (x = 1 \<and> (y = 0 \<or> y = 2)) \<or> (y = 1 \<and> x = 3) then 1000 else 0)\<rparr>"

section \<open>registerDepth\<close>

text \<open>
  Modelled from the spec: the helper \<^verbatim>\<open>uIsInBounds\<close> of the utility library is not
  among the sources. Section 4.5 writes a projected pixel when it falls on the
  destination image: \<open>low \<le> value < high\<close>.
\<close>

definition uIsInBounds :: "int \<Rightarrow> int \<Rightarrow> int \<Rightarrow> bool" where
  "uIsInBounds v low high = (low \<le> v \<and> v < high)"

text \<open>The update of one destination sample:
  \<^verbatim>\<open>if(zReg == 0 || z16 < zReg) zReg = z16;\<close>\<close>

definition zWrite :: "16 word \<Rightarrow> 16 word \<Rightarrow> 16 word" where
  "zWrite zReg z16 = (if zReg = 0 \<or> z16 < zReg then z16 else zReg)"

text \<open>
  The camera matrices are 3x3 matrices of \<^verbatim>\<open>double\<close>, read into \<^verbatim>\<open>float\<close>
  variables; the transform is taken as the first three rows of the 4x4 matrix
  \<^verbatim>\<open>transform.toEigen3f()\<close>, and a flag for \<^verbatim>\<open>transform.isNull()\<close>. A row of
  \<^verbatim>\<open>proj * P4\<close> is accumulated from left to right.
\<close>

type_synonym mat64f = "nat \<Rightarrow> nat \<Rightarrow> fp"

record transform =
  isNull :: bool
  coef :: "nat \<Rightarrow> nat \<Rightarrow> fp"

definition affineRow :: "(nat \<Rightarrow> nat \<Rightarrow> fp) \<Rightarrow> nat \<Rightarrow> fp \<Rightarrow> fp \<Rightarrow> fp \<Rightarrow> fp \<Rightarrow> fp" where
  "affineRow proj i p0 p1 p2 p3 =
     fadd (fadd (fadd (fmul (proj i 0) p0) (fmul (proj i 1) p1)) (fmul (proj i 2) p2))
          (fmul (proj i 3) p3)"

text \<open>
  The projection of the source pixel \<open>(y, x)\<close> of depth \<open>d\<close>: nothing when the pixel is
  filtered out or falls outside the destination, else the destination row, column and
  depth in millimetres.
\<close>

definition projectPixel ::
  "mat64f \<Rightarrow> mat64f \<Rightarrow> (nat \<Rightarrow> nat \<Rightarrow> fp) \<Rightarrow> nat \<Rightarrow> nat \<Rightarrow> nat \<Rightarrow> nat \<Rightarrow> 16 word
     \<Rightarrow> (nat \<times> nat \<times> 16 word) option" where
  "projectPixel depthK colorK proj nrows ncols y x d =
     (let fx = fp_cast binary32 (depthK 0 0); fy = fp_cast binary32 (depthK 1 1);
          cx = fp_cast binary32 (depthK 0 2); cy = fp_cast binary32 (depthK 1 2);
          rfx = fp_cast binary32 (colorK 0 0); rfy = fp_cast binary32 (colorK 1 1);
          rcx = fp_cast binary32 (colorK 0 2); rcy = fp_cast binary32 (colorK 1 2);
          dz = fmul (float_of_int (uint d)) (float_lit (1 / 1000))
      in if fp_le (Fin 0) dz then
           (let p0 = fdiv (fmul (fsub (float_of_int (int x)) cx) dz) fx;
                p1 = fdiv (fmul (fsub (float_of_int (int y)) cy) dz) fy;
                p2 = dz;
                P30 = affineRow proj 0 p0 p1 p2 (Fin 1);
                P31 = affineRow proj 1 p0 p1 p2 (Fin 1);
                z = affineRow proj 2 p0 p1 p2 (Fin 1);
                invZ = fdiv (Fin 1) z;
                dx = fp_to_i32 (fadd (fmul (fmul rfx P30) invZ) rcx);
                dy = fp_to_i32 (fadd (fmul (fmul rfy P31) invZ) rcy)
            in if uIsInBounds dx 0 (int ncols) \<and> uIsInBounds dy 0 (int nrows)
               then Some (nat dy, nat dx, fp_to_u16 (fmul z (float_of_int 1000)))
               else None)
         else None)"

text \<open>One body of the inner loop, on the image \<open>registered\<close>.\<close>

definition registerPixel ::
  "mat16u \<Rightarrow> mat64f \<Rightarrow> mat64f \<Rightarrow> (nat \<Rightarrow> nat \<Rightarrow> fp) \<Rightarrow> nat \<Rightarrow> nat
     \<Rightarrow> (nat \<Rightarrow> nat \<Rightarrow> 16 word) \<Rightarrow> (nat \<Rightarrow> nat \<Rightarrow> 16 word)" where
  "registerPixel depth depthK colorK proj y x registered =
     (case projectPixel depthK colorK proj (rows depth) (cols depth) y x (px depth y x) of
        None \<Rightarrow> registered
      | Some (dy, dx, z16) \<Rightarrow> at_set registered dy dx (zWrite (registered dy dx) z16))"

text \<open>The source pixels in the order of the two loops: rows outside, columns inside.\<close>

definition scanOrder :: "nat \<Rightarrow> nat \<Rightarrow> (nat \<times> nat) list" where
  "scanOrder nrows ncols = concat (map (\<lambda>y. map (\<lambda>x. (y, x)) [0 ..< ncols]) [0 ..< nrows])"

text \<open>The function with the source pixels visited in the order of the list \<open>ps\<close>; the
  source visits them in scan order.\<close>

definition registerDepthIn ::
  "(nat \<times> nat) list \<Rightarrow> mat16u \<Rightarrow> mat64f \<Rightarrow> mat64f \<Rightarrow> transform \<Rightarrow> error + mat16u" where
  "registerDepthIn ps depth depthK colorK transform =
     (if isNull transform \<or> rows depth = 0 \<or> cols depth = 0 then Inl AssertionFailed
      else Inr \<lparr>rows = rows depth, cols = cols depth,
                px = fold (\<lambda>(y, x). registerPixel depth depthK colorK (coef transform) y x)
                       ps (\<lambda>y x. 0)\<rparr>)"

definition registerDepth :: "mat16u \<Rightarrow> mat64f \<Rightarrow> mat64f \<Rightarrow> transform \<Rightarrow> error + mat16u" where
  "registerDepth depth depthK colorK transform =
     registerDepthIn (scanOrder (rows depth) (cols depth)) depth depthK colorK transform"

text \<open>The depths projected onto the destination pixel \<open>(dy, dx)\<close>, in the order in which the
  loops reach their source pixels.\<close>

definition contributorsIn ::
  "(nat \<times> nat) list \<Rightarrow> mat16u \<Rightarrow> mat64f \<Rightarrow> mat64f \<Rightarrow> transform \<Rightarrow> nat \<Rightarrow> nat
     \<Rightarrow> 16 word list" where
  "contributorsIn ps depth depthK colorK transform dy dx =
     concat (map (\<lambda>(y, x).
        case projectPixel depthK colorK (coef transform) (rows depth) (cols depth) y x
               (px depth y x) of
          Some (dy', dx', z16) \<Rightarrow> if dy' = dy \<and> dx' = dx then [z16] else []
        | None \<Rightarrow> [])
      ps)"

definition contributors ::
  "mat16u \<Rightarrow> mat64f \<Rightarrow> mat64f \<Rightarrow> transform \<Rightarrow> nat \<Rightarrow> nat \<Rightarrow> 16 word list" where
  "contributors depth depthK colorK transform dy dx =
     contributorsIn (scanOrder (rows depth) (cols depth)) depth depthK colorK transform dy dx"

text \<open>No source pixel of the list is projected with a depth of 0 mm.\<close>

definition noZeroProjection ::
  "(nat \<times> nat) list \<Rightarrow> mat16u \<Rightarrow> mat64f \<Rightarrow> mat64f \<Rightarrow> transform \<Rightarrow> bool" where
  "noZeroProjection ps depth depthK colorK transform =
     (\<forall>(y, x) \<in> set ps. \<forall>dy dx.
        projectPixel depthK colorK (coef transform) (rows depth) (cols depth) y x
          (px depth y x) \<noteq> Some (dy, dx, 0))"

text \<open>Concrete inputs of \<open>registerDepth\<close>: camera matrices with focal lengths 1 and 1024
  and the principal point at the origin; the identity rotation with a translation of
  1 m, and of \<open>-1/2048\<close> m, along the optical axis; a 1x1 depth map whose only pixel is
  empty with the image the projector makes of it, and 1x3 depth maps of 6, 1, 8 mm and
  of 6, 3, 8 mm with the images the projector makes of them; for the first of these
  also the image made when the source pixels are visited from right to left.\<close>

definition unitK :: mat64f where
  "unitK = (\<lambda>i j. if i = j then Fin 1 else Fin 0)"

definition wideK :: mat64f where
  "wideK = (\<lambda>i j. if i = j then (if i = 2 then Fin 1 else Fin 1024) else Fin 0)"

definition shiftZ :: transform where
  "shiftZ = \<lparr>isNull = False,
     coef = (\<lambda>i j. if i = j \<or> (i = 2 \<and> j = 3) then Fin 1 else Fin 0)\<rparr>"

definition nearShift :: transform where
  "nearShift = \<lparr>isNull = False,
     coef = (\<lambda>i j. if i = j then Fin 1 else if i = 2 \<and> j = 3 then Fin (- (1 / 2048)) else Fin 0)\<rparr>"

definition emptyDepth :: mat16u where
  "emptyDepth = \<lparr>rows = 1, cols = 1, px = (\<lambda>y x. 0)\<rparr>"

definition emptyRegistered :: mat16u where
  "emptyRegistered = \<lparr>rows = 1, cols = 1, px = (\<lambda>y x. if y = 0 \<and> x = 0 then 1000 else 0)\<rparr>"

definition nearDepth :: mat16u where
  "nearDepth = \<lparr>rows = 1, cols = 3, px = (\<lambda>y x. if x = 0 then 6 else if x = 1 then 1 else 8)\<rparr>"

definition nearRegistered :: mat16u where
  "nearRegistered = \<lparr>rows = 1, cols = 3, px = (\<lambda>y x. if y = 0 \<and> x = 0 then 7 else 0)\<rparr>"

definition collDepth :: mat16u where
  "collDepth = \<lparr>rows = 1, cols = 3, px = (\<lambda>y x. if x = 0 then 6 else if x = 1 then 3 else 8)\<rparr>"

definition nearReordered :: mat16u where
  "nearReordered = \<lparr>rows = 1, cols = 3, px = (\<lambda>y x. if y = 0 \<and> x = 0 then 5 else 0)\<rparr>"

definition collRegistered :: mat16u where
  "collRegistered = \<lparr>rows = 1, cols = 3, px = (\<lambda>y x. if y = 0 \<and> x = 0 then 2 else 0)\<rparr>"

section \<open>Block dissimilarity: ssd and sad\<close>

text \<open>A \<^verbatim>\<open>cv::Mat\<close> with its type tag, for the functions that dispatch on it.
  \<^verbatim>\<open>CV_16SC2\<close> holds two signed 16-bit components per pixel, read with \<open>sint\<close>.\<close>

datatype image =
    Mat8U "8 word mat"
  | Mat16U "16 word mat"
  | Mat32F "fp mat"
  | Mat16SC2 "(16 word \<times> 16 word) mat"

fun image_rows :: "image \<Rightarrow> nat" where
  "image_rows (Mat8U m) = rows m"
| "image_rows (Mat16U m) = rows m"
| "image_rows (Mat32F m) = rows m"
| "image_rows (Mat16SC2 m) = rows m"

fun image_cols :: "image \<Rightarrow> nat" where
  "image_cols (Mat8U m) = cols m"
| "image_cols (Mat16U m) = cols m"
| "image_cols (Mat32F m) = cols m"
| "image_cols (Mat16SC2 m) = cols m"

text \<open>The comparable intensity of a packed pixel:
  \<^verbatim>\<open>float(w[0])*0.5f+float(w[1])*0.5f\<close>.\<close>

definition packedIntensity :: "16 word \<times> 16 word \<Rightarrow> fp" where
  "packedIntensity w =
     fadd (fmul (float_of_int (sint (fst w))) (float_lit (1 / 2)))
          (fmul (float_of_int (sint (snd w))) (float_lit (1 / 2)))"

text \<open>The difference \<open>s\<close> of the two windows at pixel \<open>(v, u)\<close>; nothing when the type
  tags differ or are not supported (the assertions of the source reject these).\<close>

fun pixelDiff :: "image \<Rightarrow> image \<Rightarrow> nat \<Rightarrow> nat \<Rightarrow> fp option" where
  "pixelDiff (Mat8U l) (Mat8U r) v u =
     Some (fsub (float_of_int (uint (px l v u))) (float_of_int (uint (px r v u))))"
| "pixelDiff (Mat32F l) (Mat32F r) v u = Some (fsub (px l v u) (px r v u))"
| "pixelDiff (Mat16SC2 l) (Mat16SC2 r) v u =
     Some (fsub (packedIntensity (px l v u)) (packedIntensity (px r v u)))"
| "pixelDiff _ _ v u = None"

text \<open>The assertions on the two windows: a supported type, the same type, the same
  shape.\<close>

fun sameEncoding :: "image \<Rightarrow> image \<Rightarrow> bool" where
  "sameEncoding (Mat8U l) (Mat8U r) = True"
| "sameEncoding (Mat32F l) (Mat32F r) = True"
| "sameEncoding (Mat16SC2 l) (Mat16SC2 r) = True"
| "sameEncoding _ _ = False"

definition windowsMatch :: "image \<Rightarrow> image \<Rightarrow> bool" where
  "windowsMatch windowLeft windowRight =
     (sameEncoding windowLeft windowRight \<and>
      image_rows windowLeft = image_rows windowRight \<and>
      image_cols windowLeft = image_cols windowRight)"

definition ssd :: "image \<Rightarrow> image \<Rightarrow> error + fp" where
  "ssd windowLeft windowRight =
     (if \<not> windowsMatch windowLeft windowRight then Inl AssertionFailed
      else Inr (foldl (\<lambda>score (v, u).
                  case pixelDiff windowLeft windowRight v u of
                    Some s \<Rightarrow> fadd score (fmul s s)
                  | None \<Rightarrow> score)
                (Fin 0) (scanOrder (image_rows windowLeft) (image_cols windowLeft))))"

definition sad :: "image \<Rightarrow> image \<Rightarrow> error + fp" where
  "sad windowLeft windowRight =
     (if \<not> windowsMatch windowLeft windowRight then Inl AssertionFailed
      else Inr (foldl (\<lambda>score (v, u).
                  case pixelDiff windowLeft windowRight v u of
                    Some s \<Rightarrow> fadd score (fp_abs s)
                  | None \<Rightarrow> score)
                (Fin 0) (scanOrder (image_rows windowLeft) (image_cols windowLeft))))"

text \<open>A window whose samples inside its bounds are all finite (always so for the integer
  encodings), and a score that is zero or more, possibly infinite.\<close>

fun finiteWindow :: "image \<Rightarrow> bool" where
  "finiteWindow (Mat32F m) = (\<forall>v<rows m. \<forall>u<cols m. uIsFinite (px m v u))"
| "finiteWindow _ = True"

fun supported :: "image \<Rightarrow> bool" where
  "supported (Mat16U m) = False"
| "supported _ = True"

fun fp_nonneg :: "fp \<Rightarrow> bool" where
  "fp_nonneg (Fin r) = (0 \<le> r)"
| "fp_nonneg PInf = True"
| "fp_nonneg _ = False"

text \<open>Concrete windows: a single NaN sample; the samples 1 and \<open>+\<infinity>\<close>; the 5x5 window
  of constant intensity 100; two windows of two 32-bit float samples, 1, 2 and 2, 4.\<close>

definition nanWindow :: image where
  "nanWindow = Mat32F \<lparr>rows = 1, cols = 1, px = (\<lambda>v u. NaN)\<rparr>"

definition flatWindow :: image where
  "flatWindow = Mat8U \<lparr>rows = 5, cols = 5, px = (\<lambda>v u. 100)\<rparr>"

definition infWindow :: image where
  "infWindow = Mat32F \<lparr>rows = 1, cols = 2, px = (\<lambda>v u. if u = 0 then Fin 1 else PInf)\<rparr>"

definition rampWindow :: image where
  "rampWindow = Mat32F \<lparr>rows = 1, cols = 2, px = (\<lambda>v u. if u = 0 then Fin 1 else Fin 2)\<rparr>"

definition stepWindow :: image where
  "stepWindow = Mat32F \<lparr>rows = 1, cols = 2, px = (\<lambda>v u. if u = 0 then Fin 2 else Fin 4)\<rparr>"

section \<open>The depth conversions\<close>

text \<open>
  A loop over the pixels \<open>ps\<close> that writes, for each pixel, the sample \<open>f\<close> computes for it
  (when there is one) and adds to a counter: the shape of the pixel loops of
  \<open>cvtDepthFromFloat\<close>, \<open>cvtDepthToFloat\<close> and \<open>depthFromDisparity\<close>.
\<close>

definition convertPixels ::
  "(nat \<Rightarrow> nat \<Rightarrow> 'a option \<times> nat) \<Rightarrow> (nat \<times> nat) list \<Rightarrow> (nat \<Rightarrow> nat \<Rightarrow> 'a) \<times> nat
     \<Rightarrow> (nat \<Rightarrow> nat \<Rightarrow> 'a) \<times> nat" where
  "convertPixels f ps s =
     fold (\<lambda>(i, j) (img, n).
             case f i j of
               (Some v, k) \<Rightarrow> (at_set img i j v, n + k)
             | (None, k) \<Rightarrow> (img, n + k))
       ps s"

text \<open>
  One pixel of \<open>cvtDepthFromFloat\<close>: the depth in millimetres and the increment of
  \<^verbatim>\<open>countOverMax\<close>.
  \<^verbatim>\<open>float depth = (depth32F.at<float>(i,j)*1000.0f); unsigned short depthMM = 0;\<close>
  \<^verbatim>\<open>if(depth > 0 && depth <= (float)USHRT_MAX) depthMM = (unsigned short)depth;\<close>
  \<^verbatim>\<open>else if(depth > (float)USHRT_MAX) ++countOverMax;\<close>
\<close>

definition cvtPixelFromFloat :: "fp \<Rightarrow> 16 word \<times> nat" where
  "cvtPixelFromFloat v =
     (let depth = fmul v (float_lit 1000) in
      if fp_less (Fin 0) depth \<and> fp_le depth (float_of_int 65535) then (fp_to_u16 depth, 0)
      else if fp_less (float_of_int 65535) depth then (0, 1)
      else (0, 0))"

text \<open>The function returns the image; the count is what its warning reports. The pixels
  are visited in the order of the list \<open>ps\<close>, in scan order by the source.\<close>

fun cvtDepthFromFloatIn :: "(nat \<times> nat) list \<Rightarrow> image \<Rightarrow> error + mat16u \<times> nat" where
  "cvtDepthFromFloatIn ps (Mat32F m) =
     (if rows m = 0 \<or> cols m = 0 then Inr (\<lparr>rows = 0, cols = 0, px = (\<lambda>y x. 0)\<rparr>, 0)
      else
        (case convertPixels (\<lambda>i j. case cvtPixelFromFloat (px m i j) of (d, k) \<Rightarrow> (Some d, k))
                ps (\<lambda>y x. 0, 0) of
           (img, n) \<Rightarrow> Inr (\<lparr>rows = rows m, cols = cols m, px = img\<rparr>, n)))"
| "cvtDepthFromFloatIn ps other =
     (if image_rows other = 0 \<or> image_cols other = 0
      then Inr (\<lparr>rows = 0, cols = 0, px = (\<lambda>y x. 0)\<rparr>, 0)
      else Inl AssertionFailed)"

definition cvtDepthFromFloat :: "image \<Rightarrow> error + mat16u \<times> nat" where
  "cvtDepthFromFloat depth32F =
     cvtDepthFromFloatIn (scanOrder (image_rows depth32F) (image_cols depth32F)) depth32F"

text \<open>One pixel of \<open>cvtDepthToFloat\<close>:
  \<^verbatim>\<open>float(depth16U.at<unsigned short>(i,j))/1000.0f\<close>.\<close>

definition cvtPixelToFloat :: "16 word \<Rightarrow> fp" where
  "cvtPixelToFloat d = fdiv (float_of_int (uint d)) (float_lit 1000)"

fun cvtDepthToFloatIn :: "(nat \<times> nat) list \<Rightarrow> image \<Rightarrow> error + mat32f" where
  "cvtDepthToFloatIn ps (Mat16U m) =
     (if rows m = 0 \<or> cols m = 0 then Inr \<lparr>rows = 0, cols = 0, px = (\<lambda>y x. Fin 0)\<rparr>
      else
        Inr \<lparr>rows = rows m, cols = cols m,
             px = fst (convertPixels (\<lambda>i j. (Some (cvtPixelToFloat (px m i j)), 0))
                         ps (\<lambda>y x. Fin 0, 0))\<rparr>)"
| "cvtDepthToFloatIn ps other =
     (if image_rows other = 0 \<or> image_cols other = 0
      then Inr \<lparr>rows = 0, cols = 0, px = (\<lambda>y x. Fin 0)\<rparr>
      else Inl AssertionFailed)"

definition cvtDepthToFloat :: "image \<Rightarrow> error + mat32f" where
  "cvtDepthToFloat depth16U =
     cvtDepthToFloatIn (scanOrder (image_rows depth16U) (image_cols depth16U)) depth16U"

text \<open>
  \<open>depthFromDisparity\<close>: the disparity map is of type \<^verbatim>\<open>CV_32FC1\<close> or \<^verbatim>\<open>CV_16SC1\<close>
  (sixteenths of a pixel), the depth asked for in metres (\<^verbatim>\<open>CV_32FC1\<close>) or in
  millimetres (\<^verbatim>\<open>CV_16UC1\<close>). The depth image starts as zeros.
\<close>

datatype disparityMap = Disparity32F "fp mat" | Disparity16S "16 word mat"

fun disparity_rows :: "disparityMap \<Rightarrow> nat" where
  "disparity_rows (Disparity32F m) = rows m"
| "disparity_rows (Disparity16S m) = rows m"

fun disparity_cols :: "disparityMap \<Rightarrow> nat" where
  "disparity_cols (Disparity32F m) = cols m"
| "disparity_cols (Disparity16S m) = cols m"

text \<open>\<^verbatim>\<open>disparity.type() == CV_16SC1?float(disparity.at<short>(i,j))/16.0f:disparity.at<float>(i,j)\<close>\<close>

fun disparityValue :: "disparityMap \<Rightarrow> nat \<Rightarrow> nat \<Rightarrow> fp" where
  "disparityValue (Disparity32F m) i j = px m i j"
| "disparityValue (Disparity16S m) i j = fdiv (float_of_int (sint (px m i j))) (Fin 16)"

text \<open>The depth in metres of a disparity, when both are positive:
  \<^verbatim>\<open>baseline * fx / disparity_value\<close>.\<close>

definition disparityDepth :: "fp \<Rightarrow> fp \<Rightarrow> fp \<Rightarrow> fp option" where
  "disparityDepth fx baseline dv =
     (if fp_less (Fin 0) dv then
        (let d = fdiv (fmul baseline fx) dv in if fp_less (Fin 0) d then Some d else None)
      else None)"

definition disparityPixelMeters :: "disparityMap \<Rightarrow> fp \<Rightarrow> fp \<Rightarrow> nat \<Rightarrow> nat \<Rightarrow> fp option \<times> nat" where
  "disparityPixelMeters disparity fx baseline i j =
     (disparityDepth fx baseline (disparityValue disparity i j), 0)"

definition disparityPixelMM ::
  "disparityMap \<Rightarrow> fp \<Rightarrow> fp \<Rightarrow> nat \<Rightarrow> nat \<Rightarrow> 16 word option \<times> nat" where
  "disparityPixelMM disparity fx baseline i j =
     (case disparityDepth fx baseline (disparityValue disparity i j) of
        None \<Rightarrow> (None, 0)
      | Some d \<Rightarrow>
          if fp_le (fmul d (float_lit 1000)) (float_of_int 65535)
          then (Some (fp_to_u16 (fmul d (float_lit 1000))), 0)
          else (None, 1))"

text \<open>The result in metres and in millimetres, each with the count of its warning.\<close>

definition depthFromDisparityIn ::
  "(nat \<times> nat) list \<Rightarrow> disparityMap \<Rightarrow> fp \<Rightarrow> fp \<Rightarrow> bool \<Rightarrow> error + image \<times> nat" where
  "depthFromDisparityIn ps disparity fx baseline inMM =
     (if disparity_rows disparity = 0 \<or> disparity_cols disparity = 0 then Inl AssertionFailed
      else if inMM then
        (case convertPixels (disparityPixelMM disparity fx baseline) ps (\<lambda>y x. 0, 0) of
           (img, n) \<Rightarrow>
             Inr (Mat16U \<lparr>rows = disparity_rows disparity, cols = disparity_cols disparity,
                          px = img\<rparr>, n))
      else
        (case convertPixels (disparityPixelMeters disparity fx baseline) ps (\<lambda>y x. Fin 0, 0) of
           (img, n) \<Rightarrow>
             Inr (Mat32F \<lparr>rows = disparity_rows disparity, cols = disparity_cols disparity,
                          px = img\<rparr>, n)))"

definition depthFromDisparity :: "disparityMap \<Rightarrow> fp \<Rightarrow> fp \<Rightarrow> bool \<Rightarrow> error + image \<times> nat" where
  "depthFromDisparity disparity fx baseline inMM =
     depthFromDisparityIn (scanOrder (disparity_rows disparity) (disparity_cols disparity))
       disparity fx baseline inMM"

text \<open>A disparity map of two pixels, 1 and 2.\<close>

definition rampDisparity :: disparityMap where
  "rampDisparity =
     Disparity32F \<lparr>rows = 1, cols = 2, px = (\<lambda>v u. if u = 0 then Fin 1 else Fin 2)\<rparr>"

section \<open>getDepth\<close>

text \<open>The depth in metres at row \<open>v\<close>, column \<open>u\<close>:
  \<^verbatim>\<open>isInMM?(float)depthImage.at<unsigned short>(v,u)*0.001f:depthImage.at<float>(v,u)\<close>.
  The function asserts one of the two depth types before it reads.\<close>

fun isDepthType :: "image \<Rightarrow> bool" where
  "isDepthType (Mat16U m) = True"
| "isDepthType (Mat32F m) = True"
| "isDepthType _ = False"

fun depthSample :: "image \<Rightarrow> nat \<Rightarrow> nat \<Rightarrow> fp" where
  "depthSample (Mat16U m) v u = fmul (float_of_int (uint (px m v u))) (float_lit (1 / 1000))"
| "depthSample (Mat32F m) v u = px m v u"
| "depthSample _ v u = Fin 0"

text \<open>The neighbours visited by the smoothing loops, columns outside, rows inside.\<close>

definition smoothingWindow :: "image \<Rightarrow> int \<Rightarrow> int \<Rightarrow> (int \<times> int) list" where
  "smoothingWindow depthImage u v =
     (let u_start = max (u - 1) 0; v_start = max (v - 1) 0;
          u_end = min (u + 1) (int (image_cols depthImage) - 1);
          v_end = min (v + 1) (int (image_rows depthImage) - 1)
      in concat (map (\<lambda>uu. map (\<lambda>vv. (uu, vv)) [v_start .. v_end]) [u_start .. u_end]))"

text \<open>One body of the smoothing loops, on the state \<open>(sumWeights, sumDepths)\<close> and the
  list of the samples read so far.\<close>

definition smoothingStep ::
  "image \<Rightarrow> int \<Rightarrow> int \<Rightarrow> fp \<Rightarrow> fp \<Rightarrow> fp \<times> fp \<times> (nat \<times> nat) list \<Rightarrow> int \<times> int
     \<Rightarrow> fp \<times> fp \<times> (nat \<times> nat) list" where
  "smoothingStep depthImage u v depth maxZError st p =
     (case (st, p) of ((sumWeights, sumDepths, reads), (uu, vv)) \<Rightarrow>
        if \<not> (uu = u \<and> vv = v) then
          (let d = depthSample depthImage (nat vv) (nat uu);
               reads' = reads @ [(nat vv, nat uu)] in
           if \<not> fp_eq d (Fin 0) \<and> uIsFinite d \<and> fp_less (fp_abs (fsub d depth)) maxZError then
             (if uu = u \<or> vv = v then
                (fadd sumWeights (Fin 2), fadd sumDepths (fmul d (Fin 2)), reads')
              else (fadd sumWeights (Fin 1), fadd sumDepths d, reads'))
           else (sumWeights, sumDepths, reads'))
        else st)"

text \<open>The pixel of a coordinate: \<^verbatim>\<open>int(x+0.5f)\<close>.\<close>

definition roundToPixel :: "fp \<Rightarrow> int" where
  "roundToPixel x = fp_to_i32 (fadd x (float_lit (1 / 2)))"

text \<open>The bounds test \<^verbatim>\<open>u >=0 && u<depthImage.cols && v >=0 && v<depthImage.rows\<close>.\<close>

definition insideImage :: "image \<Rightarrow> int \<Rightarrow> int \<Rightarrow> bool" where
  "insideImage depthImage u v =
     (0 \<le> u \<and> u < int (image_cols depthImage) \<and> 0 \<le> v \<and> v < int (image_rows depthImage))"

text \<open>The result of \<open>getDepth\<close> is the depth and the image samples read on the way.\<close>

definition getDepth ::
  "image \<Rightarrow> fp \<Rightarrow> fp \<Rightarrow> bool \<Rightarrow> fp \<Rightarrow> error + fp \<times> (nat \<times> nat) list" where
  "getDepth depthImage x y smoothing maxZError =
     (if image_rows depthImage = 0 \<or> image_cols depthImage = 0 \<or> \<not> isDepthType depthImage
      then Inl AssertionFailed
      else
        (let u = roundToPixel x; v = roundToPixel y in
         if \<not> insideImage depthImage u v then Inr (Fin 0, [])
         else
           (let depth = depthSample depthImage (nat v) (nat u) in
            if \<not> fp_eq depth (Fin 0) \<and> uIsFinite depth then
              (if smoothing then
                 (case foldl (smoothingStep depthImage u v depth maxZError)
                         (Fin 0, Fin 0, [(nat v, nat u)]) (smoothingWindow depthImage u v) of
                    (sumWeights, sumDepths, reads) \<Rightarrow>
                      Inr (fdiv (fadd (fmul depth (Fin 4)) sumDepths)
                                (fadd sumWeights (Fin 4)), reads))
               else Inr (depth, [(nat v, nat u)]))
            else Inr (Fin 0, [(nat v, nat u)]))))"

text \<open>A depth image as the function accepts it: not empty, of one of the two depth
  types.\<close>

definition depthImageOk :: "image \<Rightarrow> bool" where
  "depthImageOk depthImage =
     (isDepthType depthImage \<and> 0 < image_rows depthImage \<and> 0 < image_cols depthImage)"

text \<open>Two 4x4 depth images of one metre, in millimetres and in metres.\<close>

definition flatDepthMM :: image where
  "flatDepthMM = Mat16U \<lparr>rows = 4, cols = 4, px = (\<lambda>y x. 1000)\<rparr>"

definition flatDepthM :: image where
  "flatDepthM = Mat32F \<lparr>rows = 4, cols = 4, px = (\<lambda>y x. Fin 1)\<rparr>"

section \<open>calcStereoCorrespondences\<close>

text \<open>
  The pyramids come from \<^verbatim>\<open>cv::buildOpticalFlowPyramid\<close> and the sub-pixel windows
  from \<^verbatim>\<open>cv::getRectSubPix\<close>, both outside the sources: the two pyramids (level 0
  first), the sub-pixel window around the left corner and the sub-pixel window of the
  right image around a point are parameters of the model. The window size is the one
  the caller passes; the function makes it odd.
\<close>

record stereoParams =
  leftPyramid :: "image list"
  rightPyramid :: "image list"
  winWidth :: int
  winHeight :: int
  minDisparity :: int
  maxDisparity :: int
  ssdApproach :: bool
  leftSubPix :: image
  rightSubPix :: "fp \<Rightarrow> fp \<Rightarrow> image"

text \<open>\<^verbatim>\<open>if(winSize.width%2 == 0) winSize.width+=1;\<close> and
  \<^verbatim>\<open>halfWin((winSize.width-1)/2, ...)\<close>, in C++ integer arithmetic.\<close>

definition halfWin :: "int \<Rightarrow> int" where
  "halfWin w = ((if w smod 2 = 0 then w + 1 else w) - 1) sdiv 2"

text \<open>A window \<^verbatim>\<open>cv::Mat(m, cv::Range(r0, r1), cv::Range(c0, c1))\<close>; OpenCV asserts that
  the ranges lie inside the matrix.\<close>

definition mat_window :: "'a mat \<Rightarrow> int \<Rightarrow> int \<Rightarrow> int \<Rightarrow> int \<Rightarrow> error + 'a mat" where
  "mat_window m r0 r1 c0 c1 =
     (if 0 \<le> r0 \<and> r0 \<le> r1 \<and> r1 \<le> int (rows m) \<and> 0 \<le> c0 \<and> c0 \<le> c1 \<and> c1 \<le> int (cols m)
      then Inr \<lparr>rows = nat (r1 - r0), cols = nat (c1 - c0),
                px = (\<lambda>v u. px m (v + nat r0) (u + nat c0))\<rparr>
      else Inl AssertionFailed)"

fun image_window :: "image \<Rightarrow> int \<Rightarrow> int \<Rightarrow> int \<Rightarrow> int \<Rightarrow> error + image" where
  "image_window (Mat8U m) r0 r1 c0 c1 = map_sum id Mat8U (mat_window m r0 r1 c0 c1)"
| "image_window (Mat16U m) r0 r1 c0 c1 = map_sum id Mat16U (mat_window m r0 r1 c0 c1)"
| "image_window (Mat32F m) r0 r1 c0 c1 = map_sum id Mat32F (mat_window m r0 r1 c0 c1)"
| "image_window (Mat16SC2 m) r0 r1 c0 c1 = map_sum id Mat16SC2 (mat_window m r0 r1 c0 c1)"

text \<open>\<^verbatim>\<open>ssdApproach?ssd(windowLeft, windowRight):sad(windowLeft, windowRight)\<close>\<close>

definition windowScore :: "stereoParams \<Rightarrow> image \<Rightarrow> image \<Rightarrow> error + fp" where
  "windowScore P windowLeft windowRight =
     (if ssdApproach P then ssd windowLeft windowRight else sad windowLeft windowRight)"

text \<open>The variables of the search for one corner, declared before the loop over the
  levels.\<close>

record searchState =
  oi :: int
  bestScore :: fp
  secondBest :: fp
  bestScoreIndex :: int
  tmpMinDisparity :: int
  tmpMaxDisparity :: int
  iterations :: int

text \<open>One body of the loop over the candidates \<open>d\<close>, at one level around \<open>center\<close>.\<close>

definition candidateStep ::
  "stereoParams \<Rightarrow> nat \<Rightarrow> int \<times> int \<Rightarrow> image \<Rightarrow> int \<Rightarrow> searchState \<Rightarrow> error + searchState" where
  "candidateStep P level center windowLeft d st =
     (case image_window (rightPyramid P ! level)
             (snd center - halfWin (winHeight P)) (snd center + halfWin (winHeight P) + 1)
             (fst center + d - halfWin (winWidth P)) (fst center + d + halfWin (winWidth P) + 1) of
        Inl e \<Rightarrow> Inl e
      | Inr windowRight \<Rightarrow>
          (case windowScore P windowLeft windowRight of
             Inl e \<Rightarrow> Inl e
           | Inr score \<Rightarrow>
               (let st1 = st\<lparr>iterations := iterations st + 1\<rparr>;
                    st2 = (if fp_less (Fin 0) score \<and>
                              (fp_less (bestScore st1) (Fin 0) \<or> fp_less score (bestScore st1))
                           then st1\<lparr>secondBest := bestScore st1, bestScoreIndex := oi st1,
                                    bestScore := score\<rparr>
                           else st1)
                in Inr (st2\<lparr>oi := oi st2 + 1\<rparr>))))"

text \<open>The narrowing of the range after a level above the finest:
  \<^verbatim>\<open>tmpMaxDisparity = tmpMinDisparity+(bestScoreIndex+1)*(1<<level);\<close>
  \<^verbatim>\<open>tmpMaxDisparity+=tmpMaxDisparity%level;\<close> and so on. The remainder of C++ has the
  sign of the dividend.\<close>

definition tightenRange :: "stereoParams \<Rightarrow> nat \<Rightarrow> searchState \<Rightarrow> searchState" where
  "tightenRange P level st =
     (let tmpMax1 = tmpMinDisparity st + (bestScoreIndex st + 1) * 2 ^ level;
          tmpMax2 = tmpMax1 + tmpMax1 smod int level;
          tmpMax3 = (if maxDisparity P < tmpMax2 then maxDisparity P else tmpMax2);
          tmpMin1 = tmpMinDisparity st + (bestScoreIndex st - 1) * 2 ^ level;
          tmpMin2 = tmpMin1 - tmpMin1 smod int level;
          tmpMin3 = (if tmpMin2 < minDisparity P then minDisparity P else tmpMin2)
      in st\<lparr>tmpMaxDisparity := tmpMax3, tmpMinDisparity := tmpMin3\<rparr>)"

text \<open>The centre of the corner \<open>(x, y)\<close> at one level:
  \<^verbatim>\<open>center(int(leftCorners[i].x/float(1<<level)), int(leftCorners[i].y/float(1<<level)))\<close>.\<close>

definition levelCenter :: "fp \<times> fp \<Rightarrow> nat \<Rightarrow> int \<times> int" where
  "levelCenter corner level =
     (fp_to_i32 (fdiv (fst corner) (float_of_int (2 ^ level))),
      fp_to_i32 (fdiv (snd corner) (float_of_int (2 ^ level))))"

text \<open>The test that the window around the centre lies inside the left image of the
  level, with one more column on each side at level 0.\<close>

definition centerInside :: "stereoParams \<Rightarrow> nat \<Rightarrow> int \<times> int \<Rightarrow> bool" where
  "centerInside P level center =
     (let hw = halfWin (winWidth P); hh = halfWin (winHeight P);
          margin = (if level = 0 then 1 else 0);
          ncols = int (image_cols (leftPyramid P ! level));
          nrows = int (image_rows (leftPyramid P ! level))
      in 0 \<le> fst center - hw - margin \<and> fst center + hw + margin < ncols \<and>
         0 \<le> snd center - hh \<and> snd center + hh < nrows)"

text \<open>The candidates \<open>d\<close> of the loop
  \<^verbatim>\<open>for(int d=localMinDisparity; d>localMaxDisparity; --d)\<close>, in the order of the loop,
  after the local range is fitted to the image. The division of C++ truncates.\<close>

definition levelCandidates :: "stereoParams \<Rightarrow> nat \<Rightarrow> int \<times> int \<Rightarrow> searchState \<Rightarrow> int list" where
  "levelCandidates P level center st =
     (let localMaxDisparity = (- tmpMaxDisparity st) sdiv 2 ^ level;
          localMinDisparity = (- tmpMinDisparity st) sdiv 2 ^ level;
          hw = halfWin (winWidth P);
          ncols = int (image_cols (leftPyramid P ! level));
          minCol = fst center + localMaxDisparity - hw - 1;
          localMax1 = (if minCol < 0 then localMaxDisparity - minCol else localMaxDisparity);
          maxCol = fst center + localMinDisparity + hw + 1;
          localMin1 = (if ncols \<le> maxCol then localMinDisparity + (maxCol - ncols - 1)
                       else localMinDisparity);
          localMax2 = (if localMin1 < localMax1 then localMin1 else localMax1)
      in rev [localMax2 + 1 .. localMin1])"

text \<open>One body of the loop over the levels, for the corner \<open>(x, y)\<close>.\<close>

definition levelBody ::
  "stereoParams \<Rightarrow> fp \<times> fp \<Rightarrow> nat \<Rightarrow> searchState \<Rightarrow> error + searchState" where
  "levelBody P corner level st =
     (if \<not> level < length (leftPyramid P) then Inl AssertionFailed
      else
        (let center = levelCenter corner level;
             st0 = st\<lparr>oi := 0, bestScore := Fin (- 1), secondBest := Fin (- 1),
                       bestScoreIndex := - 1\<rparr>;
             hw = halfWin (winWidth P); hh = halfWin (winHeight P)
         in if centerInside P level center then
              (case image_window (leftPyramid P ! level) (snd center - hh) (snd center + hh + 1)
                      (fst center - hw) (fst center + hw + 1) of
                 Inl e \<Rightarrow> Inl e
               | Inr windowLeft \<Rightarrow>
                   (case foldE (candidateStep P level center windowLeft)
                           (levelCandidates P level center st) st0 of
                      Inl e \<Rightarrow> Inl e
                    | Inr st1 \<Rightarrow>
                        Inr (if 0 \<le> bestScoreIndex st1 \<and> 0 < level
                             then tightenRange P level st1 else st1)))
            else Inr st0))"

text \<open>The number of candidates of the loop at one level, none when the window around the
  centre does not lie inside the image; and the number of candidates over the levels of
  a list, from the state \<open>st\<close>.\<close>

definition evaluatedAt :: "stereoParams \<Rightarrow> fp \<times> fp \<Rightarrow> nat \<Rightarrow> searchState \<Rightarrow> nat" where
  "evaluatedAt P corner level st =
     (if centerInside P level (levelCenter corner level)
      then length (levelCandidates P level (levelCenter corner level) st) else 0)"

fun evaluatedLevels :: "stereoParams \<Rightarrow> fp \<times> fp \<Rightarrow> nat list \<Rightarrow> searchState \<Rightarrow> nat" where
  "evaluatedLevels P corner [] st = 0"
| "evaluatedLevels P corner (level # levels) st =
     evaluatedAt P corner level st +
     (case levelBody P corner level st of
        Inl e \<Rightarrow> 0
      | Inr st' \<Rightarrow> evaluatedLevels P corner levels st')"

text \<open>The loop \<^verbatim>\<open>for(int level=maxLevel; level>=0; --level)\<close> and the state it starts
  from.\<close>

definition initialSearch :: "stereoParams \<Rightarrow> searchState" where
  "initialSearch P =
     \<lparr>oi = 0, bestScore = Fin (- 1), secondBest = Fin (- 1), bestScoreIndex = - 1,
      tmpMinDisparity = minDisparity P, tmpMaxDisparity = maxDisparity P, iterations = 0\<rparr>"

definition levelLoop :: "stereoParams \<Rightarrow> fp \<times> fp \<Rightarrow> nat \<Rightarrow> error + searchState" where
  "levelLoop P corner maxLevel =
     foldE (levelBody P corner) (rev [0 ..< maxLevel + 1]) (initialSearch P)"

text \<open>
  Modelled from the spec: the helper \<^verbatim>\<open>uValue\<close> of the utility library is not among
  the sources. Section 4.2 keeps a cache, keyed by the sampled x-coordinate, of the
  scores computed before and reuses the hits; a miss gives the default.
\<close>

definition uValue :: "(fp \<rightharpoonup> fp) \<Rightarrow> fp \<Rightarrow> fp \<Rightarrow> fp" where
  "uValue cache key dflt = (case cache key of Some v \<Rightarrow> v | None \<Rightarrow> dflt)"

text \<open>\<^verbatim>\<open>cache.insert(std::make_pair(k, v))\<close> keeps an entry that is already there.\<close>

definition cacheInsert :: "(fp \<rightharpoonup> fp) \<Rightarrow> fp \<Rightarrow> fp \<Rightarrow> (fp \<rightharpoonup> fp)" where
  "cacheInsert cache k v = (case cache k of Some w \<Rightarrow> cache | None \<Rightarrow> cache(k \<mapsto> v))"

text \<open>The variables of the sub-pixel refinement; \<open>executed\<close> counts the bodies of the loop
  that were run (it is not a variable of the source).\<close>

record refineState =
  xc :: fp
  vc :: fp
  step :: fp
  cache :: "fp \<rightharpoonup> fp"
  reject :: bool
  executed :: nat

text \<open>The score at the sampled position \<open>x\<close>, computed when the cache gives 0.\<close>

definition sampleScore :: "stereoParams \<Rightarrow> fp \<Rightarrow> (fp \<rightharpoonup> fp) \<Rightarrow> fp \<Rightarrow> error + fp" where
  "sampleScore P cornerY scores x =
     (let v = uValue scores x (Fin 0) in
      if fp_eq v (Fin 0) then windowScore P (leftSubPix P) (rightSubPix P x cornerY)
      else Inr v)"

text \<open>One body of the refinement loop around the integer match \<open>seed\<close>
  (\<^verbatim>\<open>leftCorners[i].x+float(d)\<close>).\<close>

definition refineStep :: "stereoParams \<Rightarrow> fp \<Rightarrow> fp \<Rightarrow> refineState \<Rightarrow> error + refineState" where
  "refineStep P cornerY seed r =
     (let x1 = fsub (xc r) (step r); x2 = fadd (xc r) (step r) in
      case sampleScore P cornerY (cache r) x1 of
        Inl e \<Rightarrow> Inl e
      | Inr v1 \<Rightarrow>
          (case sampleScore P cornerY (cache r) x2 of
             Inl e \<Rightarrow> Inl e
           | Inr v2 \<Rightarrow>
               (let toLeft = fp_less v1 (vc r) \<and> fp_less v1 v2;
                    toRight = fp_less v2 (vc r) \<and> fp_less v2 v1;
                    xc' = (if toLeft then x1 else if toRight then x2 else xc r);
                    vc' = (if toLeft then v1 else if toRight then v2 else vc r);
                    r1 = (if fp_eq (xc r) xc'
                          then r\<lparr>xc := xc', vc := vc', step := fdiv (step r) (Fin 2)\<rparr>
                          else r\<lparr>xc := xc', vc := vc',
                                 cache := cacheInsert (cache r) (xc r) (vc r)\<rparr>);
                    r2 = r1\<lparr>executed := executed r1 + 1\<rparr>
                in Inr (if fp_less xc' (fsub seed (Fin 1)) \<or> fp_less (fadd seed (Fin 1)) xc'
                        then r2\<lparr>reject := True\<rparr> else r2))))"

text \<open>The loop \<^verbatim>\<open>for(int it=0; it<iterations; ++it)\<close>, left at the first rejection.\<close>

fun refineLoop :: "stereoParams \<Rightarrow> fp \<Rightarrow> fp \<Rightarrow> nat \<Rightarrow> refineState \<Rightarrow> error + refineState" where
  "refineLoop P cornerY seed 0 r = Inr r"
| "refineLoop P cornerY seed (Suc n) r =
     (case refineStep P cornerY seed r of
        Inl e \<Rightarrow> Inl e
      | Inr r' \<Rightarrow> if reject r' then Inr r' else refineLoop P cornerY seed n r')"

text \<open>The refinement of one corner after the loop over the levels, when a best match was
  found at the last level: the score of the seed is computed again at a corner whose x
  is not an integer, and the loop runs at most \<open>iterations\<close> times.\<close>

definition refine :: "stereoParams \<Rightarrow> fp \<times> fp \<Rightarrow> searchState \<Rightarrow> error + refineState" where
  "refine P corner st =
     (let d = - (tmpMinDisparity st + bestScoreIndex st);
          seed = fadd (fst corner) (float_of_int d)
      in case (if \<not> fp_eq (fst corner) (float_of_int (fp_to_i32 (fst corner)))
               then windowScore P (leftSubPix P) (rightSubPix P seed (snd corner))
               else Inr (bestScore st)) of
           Inl e \<Rightarrow> Inl e
         | Inr best \<Rightarrow>
             refineLoop P (snd corner) seed (nat (iterations st))
               \<lparr>xc = seed, vc = best, step = float_lit (1 / 2), cache = Map.empty,
                reject = False, executed = 0\<rparr>)"

text \<open>The result for one corner: the right corner and the status, when a best match was
  found at the last level; the status alone (0) otherwise.\<close>

definition matchCorner ::
  "stereoParams \<Rightarrow> fp \<times> fp \<Rightarrow> nat \<Rightarrow> error + ((fp \<times> fp) option \<times> bool)" where
  "matchCorner P corner maxLevel =
     (case levelLoop P corner maxLevel of
        Inl e \<Rightarrow> Inl e
      | Inr st \<Rightarrow>
          if 0 \<le> bestScoreIndex st then
            (case refine P corner st of
               Inl e \<Rightarrow> Inl e
             | Inr r \<Rightarrow> Inr (Some (xc r, snd corner), \<not> reject r))
          else Inr (None, False))"

text \<open>The narrowing as the specification words it: the new maximum is the old minimum
  plus \<open>(bestIndex + 1) * 2^level\<close>, the new minimum the old minimum plus
  \<open>(bestIndex - 1) * 2^level\<close>, each clamped to the range of the caller.\<close>

definition clampRange :: "stereoParams \<Rightarrow> int \<Rightarrow> int" where
  "clampRange P v = max (minDisparity P) (min (maxDisparity P) v)"

definition specTighten :: "stereoParams \<Rightarrow> nat \<Rightarrow> searchState \<Rightarrow> int \<times> int" where
  "specTighten P level st =
     (clampRange P (tmpMinDisparity st + (bestScoreIndex st - 1) * 2 ^ level),
      clampRange P (tmpMinDisparity st + (bestScoreIndex st + 1) * 2 ^ level))"

text \<open>
  Concrete inputs of the search. Images of one row: of constant intensity 10; of
  intensity \<open>w\<close> but for one pixel of intensity 11. Sub-pixel windows of one sample. A
  search over three levels with the disparities 1 to 8, and the state after its level
  2 for the corner \<open>(16, 0)\<close>. A search over two levels with the disparities 0 to 4,
  the states after its level 1 and its level 0 for the corner \<open>(8, 0)\<close>, and the state
  of the refinement after its loop.
\<close>

definition flatRow :: "nat \<Rightarrow> image" where
  "flatRow n = Mat8U \<lparr>rows = 1, cols = n, px = (\<lambda>v u. 10)\<rparr>"

definition markedRow :: "nat \<Rightarrow> nat \<Rightarrow> 8 word \<Rightarrow> image" where
  "markedRow n c w = Mat8U \<lparr>rows = 1, cols = n, px = (\<lambda>v u. if u = c then 11 else w)\<rparr>"

definition subWindow :: "fp \<Rightarrow> image" where
  "subWindow a = Mat32F \<lparr>rows = 1, cols = 1, px = (\<lambda>v u. a)\<rparr>"

definition stereoQuirk :: stereoParams where
  "stereoQuirk = \<lparr>leftPyramid = [flatRow 32, flatRow 16, flatRow 8],
     rightPyramid = [markedRow 32 16 20, markedRow 16 8 20, markedRow 8 4 20],
     winWidth = 1, winHeight = 1, minDisparity = 1, maxDisparity = 8, ssdApproach = True,
     leftSubPix = subWindow (Fin 10), rightSubPix = (\<lambda>x y. subWindow (Fin 12))\<rparr>"

definition quirkState :: searchState where
  "quirkState = \<lparr>oi = 2, bestScore = Fin 1, secondBest = Fin (- 1), bestScoreIndex = 0,
     tmpMinDisparity = 1, tmpMaxDisparity = 6, iterations = 2\<rparr>"

definition stereoTwo :: stereoParams where
  "stereoTwo = \<lparr>leftPyramid = [flatRow 16, flatRow 8],
     rightPyramid = [markedRow 16 8 13, markedRow 8 4 12],
     winWidth = 1, winHeight = 1, minDisparity = 0, maxDisparity = 4, ssdApproach = True,
     leftSubPix = subWindow (Fin 10), rightSubPix = (\<lambda>x y. subWindow (Fin 12))\<rparr>"

definition oneState :: searchState where
  "oneState = \<lparr>oi = 2, bestScore = Fin 1, secondBest = Fin (- 1), bestScoreIndex = 0,
     tmpMinDisparity = 0, tmpMaxDisparity = 2, iterations = 2\<rparr>"

definition twoState :: searchState where
  "twoState = \<lparr>oi = 2, bestScore = Fin 1, secondBest = Fin (- 1), bestScoreIndex = 0,
     tmpMinDisparity = 0, tmpMaxDisparity = 2, iterations = 4\<rparr>"

definition twoRefined :: refineState where
  "twoRefined = \<lparr>xc = Fin 8, vc = Fin 1, step = Fin (1 / 32), cache = Map.empty,
     reject = False, executed = 4\<rparr>"

section \<open>Evaluation of the floating-point model\<close>

lemma expo_up_numeral [simp]:
  "expo_up (numeral k) e m = (if 2 \<le> m then expo_up (pred_numeral k) (e + 1) (m / 2) else e)"
  by (simp add: numeral_eq_Suc)

lemma expo_dn_numeral [simp]:
  "expo_dn (numeral k) e m = (if m < 1 then expo_dn (pred_numeral k) (e - 1) (m * 2) else e)"
  by (simp add: numeral_eq_Suc)

lemmas fp_eval = fp_lit_def fp_of_int_def fp_round_def fp_ulp_def fp_expo_def
  binary64_def binary32_def round_even_def trunc0_def Let_def

text \<open>Rounding keeps zero and the sign, and a bounded value stays finite.\<close>

lemma fp_ulp_pos: "0 < fp_ulp fmt x"
  by (simp add: fp_ulp_def)

lemma round_even_0: "round_even 0 = 0"
  by (simp add: round_even_def)

lemma fp_round_0: "fp_round fmt 0 = Fin 0"
  by (simp add: fp_round_def round_even_0 Let_def not_le)

lemma round_even_nonneg: "0 \<le> q \<Longrightarrow> 0 \<le> round_even q"
  by (auto simp: round_even_def Let_def)

lemma round_even_abs: "\<bar>real_of_int (round_even q)\<bar> \<le> \<bar>q\<bar> + 1"
  unfolding round_even_def Let_def by (auto simp: abs_if) linarith+

lemma fp_round_nonneg: "0 \<le> x \<Longrightarrow> fp_nonneg (fp_round fmt x)"
proof -
  assume x: "0 \<le> x"
  have "0 \<le> x / fp_ulp fmt x"
    using x fp_ulp_pos [of fmt x] by simp
  then have "0 \<le> real_of_int (round_even (x / fp_ulp fmt x)) * fp_ulp fmt x"
    using round_even_nonneg fp_ulp_pos [of fmt x] by (simp add: less_imp_le)
  then show ?thesis
    by (simp add: fp_round_def Let_def)
qed

lemma fp_round_not_NaN: "fp_round fmt x \<noteq> NaN"
  by (simp add: fp_round_def Let_def)

lemma expo_up_le: "1 \<le> m \<Longrightarrow> 2 powi (expo_up n e m - e) \<le> m"
proof (induction n arbitrary: e m)
  case 0
  then show ?case by simp
next
  case (Suc n)
  show ?case
  proof (cases "2 \<le> m")
    case True
    then have "2 powi (expo_up n (e + 1) (m / 2) - (e + 1)) \<le> m / 2"
      using Suc.IH [of "m / 2" "e + 1"] by simp
    moreover have "(2::real) powi (expo_up n (e + 1) (m / 2) - e) =
        2 * 2 powi (expo_up n (e + 1) (m / 2) - (e + 1))"
      by (simp add: power_int_diff power_int_add)
    ultimately show ?thesis using True by simp
  next
    case False
    then show ?thesis using Suc.prems by simp
  qed
qed

lemma expo_dn_le: "expo_dn n e m \<le> e"
proof (induction n arbitrary: e m)
  case 0
  then show ?case by simp
next
  case (Suc n)
  have "expo_dn n (e - 1) (m * 2) \<le> e - 1"
    by (rule Suc.IH)
  then show ?case by simp
qed

lemma fp_ulp_le: "fp_ulp fmt x \<le> max \<bar>x\<bar> 1"
proof (cases "1 \<le> \<bar>x\<bar>")
  case True
  have "(2::real) powi (fp_expo fmt x - int (mant_bits fmt)) \<le> 2 powi (fp_expo fmt x)"
    by (rule power_int_increasing) auto
  also have "\<dots> \<le> \<bar>x\<bar>"
    using expo_up_le [OF True, of "exp_max fmt" 0] True by (simp add: fp_expo_def)
  finally show ?thesis by (simp add: fp_ulp_def)
next
  case False
  then have "fp_expo fmt x \<le> 0"
    by (simp add: fp_expo_def expo_dn_le)
  then have "(2::real) powi (fp_expo fmt x - int (mant_bits fmt)) \<le> 2 powi 0"
    by (intro power_int_increasing) auto
  then show ?thesis by (simp add: fp_ulp_def)
qed

lemma fp_round_finite:
  assumes "\<bar>x\<bar> \<le> B" "1 \<le> B" "2 * B < 2 ^ (exp_max fmt + 1)"
  shows "\<exists>r. fp_round fmt x = Fin r \<and> \<bar>r\<bar> \<le> 2 * B"
proof -
  let ?u = "fp_ulp fmt x"
  let ?r = "real_of_int (round_even (x / ?u)) * ?u"
  have u: "0 < ?u" "?u \<le> B"
    using fp_ulp_pos [of fmt x] fp_ulp_le [of fmt x] assms by auto
  have "\<bar>?r\<bar> = \<bar>real_of_int (round_even (x / ?u))\<bar> * ?u"
    using u by (simp add: abs_mult)
  also have "\<dots> \<le> (\<bar>x / ?u\<bar> + 1) * ?u"
    using round_even_abs [of "x / ?u"] u by (intro mult_right_mono) auto
  also have "\<dots> = \<bar>x\<bar> + ?u"
    using u by (simp add: field_simps abs_mult)
  also have "\<dots> \<le> 2 * B"
    using u assms by simp
  finally have r: "\<bar>?r\<bar> \<le> 2 * B" .
  then have "\<not> 2 ^ (exp_max fmt + 1) \<le> ?r" "\<not> ?r \<le> - (2 ^ (exp_max fmt + 1))"
    using assms(3) by auto
  then show ?thesis
    using r by (simp add: fp_round_def Let_def del: power_Suc)
qed

section \<open>Hole filling on maps without gaps\<close>













lemma average_1000: "average 1000 1000 = 1000"
  by (simp add: average_def)





section \<open>Hole filling and the order of the scan\<close>

lemma fillBody_vertical_frame:
  "c \<noteq> x \<Longrightarrow> fst (fillBody vertical False fillDoubleHoles x y img) r c = img r c"
  by (simp add: fillBody_def fillVertical_def at_set_def Let_def split: prod.splits)

lemma fillBody_vertical_local:
  assumes "\<And>r. img1 r x = img2 r x"
  shows "snd (fillBody vertical False fillDoubleHoles x y img1) =
         snd (fillBody vertical False fillDoubleHoles x y img2) \<and>
         fst (fillBody vertical False fillDoubleHoles x y img1) r x =
         fst (fillBody vertical False fillDoubleHoles x y img2) r x"
  using assms
  by (simp add: fillBody_def fillVertical_def at_set_def Let_def split: prod.splits)

lemma fillColumn_vertical_frame:
  "\<not> horizontal \<Longrightarrow> c \<noteq> x \<Longrightarrow>
   fillColumn vertical horizontal fillDoubleHoles nrows margin x y img r c = img r c"
proof (induction vertical horizontal fillDoubleHoles nrows margin x y img rule: fillColumn.induct)
  case (1 vertical horizontal fillDoubleHoles nrows margin x y img)
  show ?case
  proof (cases "y + margin < nrows")
    case True
    obtain img' skip where b: "fillBody vertical horizontal fillDoubleHoles x y img = (img', skip)"
      by (cases "fillBody vertical horizontal fillDoubleHoles x y img")
    have "img' r c = img r c"
      using fillBody_vertical_frame [OF "1.prems"(2), of vertical fillDoubleHoles y img r] b "1.prems"(1)
      by simp
    moreover have "fillColumn vertical horizontal fillDoubleHoles nrows margin x (y + skip + 1) img' r c
        = img' r c"
      using "1.IH" [OF True b [symmetric] "1.prems"] .
    ultimately show ?thesis
      using True b by (subst fillColumn.simps) simp
  next
    case False
    then show ?thesis by (subst fillColumn.simps) simp
  qed
qed

lemma fillColumn_vertical_local:
  "\<not> horizontal \<Longrightarrow> (\<And>r. img1 r x = img2 r x) \<Longrightarrow>
   fillColumn vertical horizontal fillDoubleHoles nrows margin x y img1 r x =
   fillColumn vertical horizontal fillDoubleHoles nrows margin x y img2 r x"
proof (induction vertical horizontal fillDoubleHoles nrows margin x y img1 arbitrary: img2
    rule: fillColumn.induct)
  case (1 vertical horizontal fillDoubleHoles nrows margin x y img1)
  show ?case
  proof (cases "y + margin < nrows")
    case True
    obtain i1 s1 where b1: "fillBody vertical horizontal fillDoubleHoles x y img1 = (i1, s1)"
      by (cases "fillBody vertical horizontal fillDoubleHoles x y img1")
    obtain i2 s2 where b2: "fillBody vertical horizontal fillDoubleHoles x y img2 = (i2, s2)"
      by (cases "fillBody vertical horizontal fillDoubleHoles x y img2")
    have loc: "s1 = s2 \<and> i1 r' x = i2 r' x" for r'
      using fillBody_vertical_local [of img1 x img2 vertical fillDoubleHoles y r'] "1.prems" b1 b2
      by simp
    have "fillColumn vertical horizontal fillDoubleHoles nrows margin x (y + s1 + 1) i1 r x =
          fillColumn vertical horizontal fillDoubleHoles nrows margin x (y + s1 + 1) i2 r x"
      using "1.IH" [OF True b1 [symmetric] "1.prems"(1), of i2] loc by simp
    then show ?thesis
      using True b1 b2 loc
      by (subst fillColumn.simps, subst (2) fillColumn.simps) simp
  next
    case False
    then show ?thesis
      using "1.prems"(2) by (subst fillColumn.simps, subst (2) fillColumn.simps) simp
  qed
qed

lemma fillColumn_vertical_commute:
  "fillColumn vertical False fillDoubleHoles nrows margin x1 y
     (fillColumn vertical False fillDoubleHoles nrows margin x2 y img) =
   fillColumn vertical False fillDoubleHoles nrows margin x2 y
     (fillColumn vertical False fillDoubleHoles nrows margin x1 y img)"
proof (cases "x1 = x2")
  case True
  then show ?thesis by simp
next
  case ne: False
  let ?F1 = "fillColumn vertical False fillDoubleHoles nrows margin x1 y"
  let ?F2 = "fillColumn vertical False fillDoubleHoles nrows margin x2 y"
  have "?F1 (?F2 img) r c = ?F2 (?F1 img) r c" for r c
  proof -
    consider "c = x1" | "c = x2" | "c \<noteq> x1" "c \<noteq> x2" by blast
    then show ?thesis
    proof cases
      case 1
      have "?F1 (?F2 img) r x1 = ?F1 img r x1"
        by (rule fillColumn_vertical_local) (use ne in \<open>simp_all add: fillColumn_vertical_frame\<close>)
      moreover have "?F2 (?F1 img) r x1 = ?F1 img r x1"
        using ne by (simp add: fillColumn_vertical_frame)
      ultimately show ?thesis using 1 by simp
    next
      case 2
      have "?F2 (?F1 img) r x2 = ?F2 img r x2"
        by (rule fillColumn_vertical_local) (use ne in \<open>simp_all add: fillColumn_vertical_frame\<close>)
      moreover have "?F1 (?F2 img) r x2 = ?F2 img r x2"
        using ne by (simp add: fillColumn_vertical_frame)
      ultimately show ?thesis using 2 by simp
    next
      case 3
      then show ?thesis by (simp add: fillColumn_vertical_frame)
    qed
  qed
  then show ?thesis by blast
qed

text \<open>With \<open>horizontal\<close> unset a column pass reads and writes its own column only: the
  columns may be scanned in any order.\<close>

lemma fillColumns_vertical_any_order:
  assumes "mset xs = mset ys"
  shows "fillColumns vertical False fillDoubleHoles xs m =
         fillColumns vertical False fillDoubleHoles ys m"
proof -
  let ?F = "\<lambda>x img. fillColumn vertical False fillDoubleHoles (rows m)
                         (if fillDoubleHoles then 2 else 1) x 1 img"
  have "fold ?F xs = fold ?F ys"
    by (rule fold_multiset_equiv [OF _ assms]) (simp add: fun_eq_iff fillColumn_vertical_commute)
  then show ?thesis
    by (simp add: fillColumns_def)
qed


lemma fillColumn_step:
  "y + margin < nrows \<Longrightarrow> fillBody vertical horizontal fillDoubleHoles x y img = (img', skip) \<Longrightarrow>
   fillColumn vertical horizontal fillDoubleHoles nrows margin x y img =
   fillColumn vertical horizontal fillDoubleHoles nrows margin x (y + skip + 1) img'"
  by (subst fillColumn.simps) simp

lemma fillColumn_stop:
  "\<not> y + margin < nrows \<Longrightarrow>
   fillColumn vertical horizontal fillDoubleHoles nrows margin x y img = img"
  by (subst fillColumn.simps) simp

lemma fillSingle_empty: "fillSingle 1000 0 1000"
  by (simp add: fillSingle_def emptyOrOutlier_def consistent_def)

lemma fillSingle_no_neighbour: "\<not> fillSingle 0 b c"
  by (simp add: fillSingle_def)

lemma crossMap_body_1:
  "img 0 (Suc 0) = 1000 \<Longrightarrow> img (Suc 0) (Suc 0) = 0 \<Longrightarrow> img (Suc (Suc 0)) (Suc 0) = 1000 \<Longrightarrow>
   fillBody True True False (Suc 0) (Suc 0) img = (at_set img 1 1 1000, 0)"
  by (simp add: fillBody_def fillVertical_def fillSingle_empty average_1000)

lemma crossMap_body_2_filled:
  "img 0 2 = 0 \<Longrightarrow> img (Suc 0) (Suc 0) = 1000 \<Longrightarrow> img (Suc 0) 2 = 0 \<Longrightarrow> img (Suc 0) 3 = 1000 \<Longrightarrow>
   fillBody True True False 2 (Suc 0) img = (at_set img 1 2 1000, 0)"
  by (simp add: fillBody_def fillVertical_def fillHorizontal_def fillSingle_empty
      fillSingle_no_neighbour average_1000 numeral_3_eq_3 numeral_2_eq_2)

lemma crossMap_body_2_empty:
  "img 0 2 = 0 \<Longrightarrow> img (Suc 0) (Suc 0) = 0 \<Longrightarrow>
   fillBody True True False 2 (Suc 0) img = (img, 0)"
  by (simp add: fillBody_def fillVertical_def fillHorizontal_def fillSingle_no_neighbour)

lemma crossMap_column_1:
  "img 0 (Suc 0) = 1000 \<Longrightarrow> img (Suc 0) (Suc 0) = 0 \<Longrightarrow> img (Suc (Suc 0)) (Suc 0) = 1000 \<Longrightarrow>
   fillColumn True True False 3 (Suc 0) (Suc 0) (Suc 0) img = at_set img 1 1 1000"
  by (simp add: fillColumn_step [OF _ crossMap_body_1] fillColumn_stop)

lemma crossMap_column_2_filled:
  "img 0 2 = 0 \<Longrightarrow> img (Suc 0) (Suc 0) = 1000 \<Longrightarrow> img (Suc 0) 2 = 0 \<Longrightarrow> img (Suc 0) 3 = 1000 \<Longrightarrow>
   fillColumn True True False 3 (Suc 0) 2 (Suc 0) img = at_set img 1 2 1000"
  by (simp add: fillColumn_step [OF _ crossMap_body_2_filled] fillColumn_stop)

lemma crossMap_column_2_empty:
  "img 0 2 = 0 \<Longrightarrow> img (Suc 0) (Suc 0) = 0 \<Longrightarrow>
   fillColumn True True False 3 (Suc 0) 2 (Suc 0) img = img"
  by (simp add: fillColumn_step [OF _ crossMap_body_2_empty] fillColumn_stop)

lemma crossMap_forward:
  "px (fillColumns True True False [1, 2] crossMap) 1 2 = 1000"
  by (simp add: fillColumns_def crossMap_def crossMap_column_1 crossMap_column_2_filled at_set_def)

lemma crossMap_backward:
  "px (fillColumns True True False [2, 1] crossMap) 1 2 = 0"
  by (simp add: fillColumns_def crossMap_def crossMap_column_1 crossMap_column_2_empty at_set_def)

lemma upt_1_3: "[Suc 0 ..< 3] = [Suc 0, 2]"
  by (simp add: numeral_3_eq_3 numeral_2_eq_2)

lemma crossMap_source_order:
  "fillRegisteredDepthHoles crossMap True True False = fillColumns True True False [1, 2] crossMap"
  by (simp add: fillRegisteredDepthHoles_def crossMap_def upt_1_3)

section \<open>registerDepth: nearest point wins\<close>

lemma zWrite_keeps: "zReg \<noteq> 0 \<Longrightarrow> zReg \<le> z16 \<Longrightarrow> zWrite zReg z16 = zReg"
  by (auto simp: zWrite_def)

lemma zWrite_min: "zReg \<noteq> 0 \<Longrightarrow> zWrite zReg z16 = min zReg z16"
  by (auto simp: zWrite_def min_def)

lemma foldl_zWrite_fold_min:
  "acc \<noteq> 0 \<Longrightarrow> 0 \<notin> set cs \<Longrightarrow> foldl zWrite acc cs = fold min cs acc"
proof (induction cs arbitrary: acc)
  case Nil
  then show ?case by simp
next
  case (Cons c cs)
  then have "min c acc \<noteq> 0" by (auto simp: min_def)
  with Cons show ?case
    by (simp add: zWrite_min min.commute)
qed

lemma foldl_zWrite_min:
  assumes "0 \<notin> set cs" "cs \<noteq> []"
  shows "foldl zWrite 0 cs = Min (set cs)"
proof -
  obtain c cs' where cs: "cs = c # cs'"
    using assms(2) by (cases cs) auto
  have "foldl zWrite 0 cs = foldl zWrite c cs'"
    by (simp add: cs zWrite_def)
  also have "\<dots> = fold min cs' c"
    using assms(1) cs by (intro foldl_zWrite_fold_min) auto
  also have "\<dots> = Min (set cs)"
    unfolding cs by (rule Min.set_eq_fold [symmetric])
  finally show ?thesis .
qed

text \<open>The contributions of a list of source pixels to one destination pixel.\<close>

lemma registerPixel_at:
  "registerPixel depth depthK colorK proj y x reg dy dx =
   foldl zWrite (reg dy dx)
     (case projectPixel depthK colorK proj (rows depth) (cols depth) y x (px depth y x) of
        Some (dy', dx', z16) \<Rightarrow> if dy' = dy \<and> dx' = dx then [z16] else []
      | None \<Rightarrow> [])"
  by (auto simp: registerPixel_def at_set_def split: option.splits)

lemma fold_register:
  "fold (\<lambda>(y, x). registerPixel depth depthK colorK proj y x) ps reg dy dx =
   foldl zWrite (reg dy dx)
     (concat (map (\<lambda>(y, x).
        case projectPixel depthK colorK proj (rows depth) (cols depth) y x (px depth y x) of
          Some (dy', dx', z16) \<Rightarrow> if dy' = dy \<and> dx' = dx then [z16] else []
        | None \<Rightarrow> []) ps))"
proof (induction ps arbitrary: reg)
  case Nil
  then show ?case by simp
next
  case (Cons p ps)
  obtain y x where p: "p = (y, x)" by (cases p)
  let ?c = "\<lambda>(y, x).
        case projectPixel depthK colorK proj (rows depth) (cols depth) y x (px depth y x) of
          Some (dy', dx', z16) \<Rightarrow> if dy' = dy \<and> dx' = dx then [z16] else []
        | None \<Rightarrow> []"
  have "fold (\<lambda>(y, x). registerPixel depth depthK colorK proj y x) (p # ps) reg dy dx =
      fold (\<lambda>(y, x). registerPixel depth depthK colorK proj y x) ps
        (registerPixel depth depthK colorK proj y x reg) dy dx"
    by (simp add: p)
  also have "\<dots> = foldl zWrite (registerPixel depth depthK colorK proj y x reg dy dx)
      (concat (map ?c ps))"
    by (rule Cons.IH)
  also have "\<dots> = foldl zWrite (foldl zWrite (reg dy dx) (?c (y, x))) (concat (map ?c ps))"
    by (simp only: registerPixel_at prod.case)
  also have "\<dots> = foldl zWrite (reg dy dx) (concat (map ?c (p # ps)))"
    by (simp only: p list.map concat.simps foldl_append)
  finally show ?case .
qed

lemma registerDepthIn_px:
  assumes "registerDepthIn ps depth depthK colorK transform = Inr out"
  shows "px out dy dx = foldl zWrite 0 (contributorsIn ps depth depthK colorK transform dy dx)"
  using assms
  by (auto simp: registerDepthIn_def contributorsIn_def fold_register split: if_splits)

text \<open>
  C2, as amended. A call of \<open>registerDepth\<close> whose assertions hold (the transform is not
  null, the depth map has rows and columns) returns an image. A nonzero stored depth is
  replaced only by a strictly smaller projected depth, never by one greater than or
  equal to it; the final value of a destination pixel is the result of applying this
  update, from 0, to the depths projected onto it in scan order. A projected depth of
  0 mm therefore empties the pixel again; when none of the depths projected onto a pixel
  is 0, its final value is their minimum (and 0 when there is none).
\<close>

theorem registerDepth_nearest:
  assumes "\<not> isNull transform" "0 < rows depth" "0 < cols depth"
  shows "\<exists>out. registerDepth depth depthK colorK transform = Inr out \<and>
    (\<forall>zReg z16. zReg \<noteq> 0 \<and> zReg \<le> z16 \<longrightarrow> zWrite zReg z16 = zReg) \<and>
    px out dy dx = foldl zWrite 0 (contributors depth depthK colorK transform dy dx) \<and>
    (0 \<notin> set (contributors depth depthK colorK transform dy dx) \<longrightarrow>
       px out dy dx =
         (if contributors depth depthK colorK transform dy dx = [] then 0
          else Min (set (contributors depth depthK colorK transform dy dx))))"
proof -
  obtain out where out: "registerDepth depth depthK colorK transform = Inr out"
    using assms by (simp add: registerDepth_def registerDepthIn_def)
  have 1: "px out dy dx = foldl zWrite 0 (contributors depth depthK colorK transform dy dx)"
    using registerDepthIn_px [of _ depth depthK colorK transform out dy dx] out
    by (simp add: registerDepth_def contributors_def)
  show ?thesis
    using 1 out by (auto simp: zWrite_keeps foldl_zWrite_min)
qed

lemmas f32_eval = fadd_def fsub_def fmul_def fdiv_def float_of_int_def float_lit_def
  fp_sub_def fp_le_def fp_to_u16_def fp_inf_def fp_eval

lemma scanOrder_1_1: "scanOrder (Suc 0) (Suc 0) = [(0, 0)]"
  by (simp add: scanOrder_def)

lemma scanOrder_1_3: "scanOrder (Suc 0) 3 = [(0, 0), (0, 1), (0, 2)]"
  by (simp add: scanOrder_def numeral_3_eq_3)

lemma project_empty:
  "projectPixel unitK unitK (coef shiftZ) (Suc 0) (Suc 0) 0 0 0 = Some (0, 0, 1000)"
  by (simp add: projectPixel_def unitK_def shiftZ_def affineRow_def uIsInBounds_def f32_eval)

lemma project_near_0:
  "projectPixel wideK unitK (coef nearShift) (Suc 0) 3 0 0 6 = Some (0, 0, 5)"
  by (simp add: projectPixel_def unitK_def wideK_def nearShift_def affineRow_def
      uIsInBounds_def f32_eval)

lemma project_near_1:
  "projectPixel wideK unitK (coef nearShift) (Suc 0) 3 0 (Suc 0) 1 = Some (0, 0, 0)"
  by (simp add: projectPixel_def unitK_def wideK_def nearShift_def affineRow_def
      uIsInBounds_def f32_eval)

lemma project_coll_1:
  "projectPixel wideK unitK (coef nearShift) (Suc 0) 3 0 (Suc 0) 3 = Some (0, 0, 2)"
  by (simp add: projectPixel_def unitK_def wideK_def nearShift_def affineRow_def
      uIsInBounds_def f32_eval)

lemma project_near_2:
  "projectPixel wideK unitK (coef nearShift) (Suc 0) 3 0 2 8 = Some (0, 0, 7)"
  by (simp add: projectPixel_def unitK_def wideK_def nearShift_def affineRow_def
      uIsInBounds_def f32_eval)

lemma not_null: "\<not> isNull shiftZ" "\<not> isNull nearShift"
  by (simp_all add: shiftZ_def nearShift_def)

lemma registerDepth_empty:
  "registerDepth emptyDepth unitK unitK shiftZ = Inr emptyRegistered"
proof -
  have "registerPixel emptyDepth unitK unitK (coef shiftZ) 0 0 (\<lambda>y x. 0) =
      px emptyRegistered"
    using project_empty
    by (simp add: registerPixel_def emptyDepth_def emptyRegistered_def at_set_def zWrite_def
        fun_eq_iff)
  moreover have "rows emptyDepth = Suc 0" "cols emptyDepth = Suc 0"
    by (simp_all add: emptyDepth_def)
  moreover have "\<lparr>rows = Suc 0, cols = Suc 0, px = px emptyRegistered\<rparr> = emptyRegistered"
    by (simp add: emptyRegistered_def)
  ultimately show ?thesis
    by (simp add: registerDepth_def registerDepthIn_def scanOrder_1_1 not_null)
qed

lemma contributors_near: "contributors nearDepth wideK unitK nearShift 0 0 = [5, 0, 7]"
  using project_near_0 project_near_1 project_near_2
  by (simp add: contributors_def contributorsIn_def nearDepth_def scanOrder_1_3)

lemma contributors_coll: "contributors collDepth wideK unitK nearShift 0 0 = [5, 2, 7]"
  using project_near_0 project_coll_1 project_near_2
  by (simp add: contributors_def contributorsIn_def collDepth_def scanOrder_1_3)

lemma registerDepth_near:
  "registerDepth nearDepth wideK unitK nearShift = Inr nearRegistered"
  using project_near_0 project_near_1 project_near_2
  by (simp add: registerDepth_def registerDepthIn_def registerPixel_def nearDepth_def not_null
      scanOrder_1_3 at_set_def zWrite_def nearRegistered_def fun_eq_iff)

lemma registerDepth_coll:
  "registerDepth collDepth wideK unitK nearShift = Inr collRegistered"
  using project_near_0 project_coll_1 project_near_2
  by (simp add: registerDepth_def registerDepthIn_def registerPixel_def collDepth_def not_null
      scanOrder_1_3 at_set_def zWrite_def collRegistered_def fun_eq_iff)

lemma collDepth_shape: "0 < rows collDepth" "0 < cols collDepth" "px collRegistered 0 0 = 2"
  by (simp_all add: collDepth_def collRegistered_def)

theorem registerDepth_nearest_witness:
  "\<not> isNull nearShift \<and> 0 < rows collDepth \<and> 0 < cols collDepth \<and>
   registerDepth collDepth wideK unitK nearShift = Inr collRegistered \<and>
   contributors collDepth wideK unitK nearShift 0 0 = [5, 2, 7] \<and>
   px collRegistered 0 0 = foldl zWrite 0 [5, 2, 7] \<and>
   px collRegistered 0 0 = Min (set [5, 2, 7]) \<and>
   px collRegistered 0 0 = 2"
  using registerDepth_nearest [of nearShift collDepth wideK unitK 0 0]
  by (simp add: registerDepth_coll contributors_coll not_null collDepth_shape zWrite_def)

text \<open>The claim as stated fails: depths of 5, 0 and 7 mm are projected in this order onto
  pixel (0,0), which ends at 7 mm: neither 0 nor the smallest nonzero depth written to
  it, and not the minimum over its contributors.\<close>

theorem registerDepth_nearest_counterexample:
  "registerDepth nearDepth wideK unitK nearShift = Inr nearRegistered \<and>
   contributors nearDepth wideK unitK nearShift 0 0 = [5, 0, 7] \<and>
   px nearRegistered 0 0 = 7 \<and>
   px nearRegistered 0 0 \<noteq> Min (set (contributors nearDepth wideK unitK nearShift 0 0))"
  by (simp add: registerDepth_near contributors_near nearRegistered_def)

text \<open>
  C7. The test \<^verbatim>\<open>dz>=0.0f\<close> under the comment \<^verbatim>\<open>//filtering\<close> holds for every
  unsigned sample, so an empty source pixel is projected like any other: it lands where
  the origin of the source camera projects, with the depth of the translation. Here the
  only source pixel is empty and the destination pixel is written with 1000 mm.
\<close>

theorem registerDepth_empty_source_written:
  "px emptyDepth 0 0 = 0 \<and>
   registerDepth emptyDepth unitK unitK shiftZ = Inr emptyRegistered \<and>
   px emptyRegistered 0 0 = 1000"
proof -
  have "px emptyDepth 0 0 = 0" "px emptyRegistered 0 0 = 1000"
    by (simp_all add: emptyDepth_def emptyRegistered_def)
  then show ?thesis
    using registerDepth_empty by simp
qed

section \<open>ssd and sad: zero on equal windows, never negative\<close>

lemma set_scanOrder: "set (scanOrder r c) = {(v, u). v < r \<and> u < c}"
  by (auto simp: scanOrder_def)

lemma fp_nonneg_fadd: "fp_nonneg a \<Longrightarrow> fp_nonneg b \<Longrightarrow> fp_nonneg (fadd a b)"
  by (cases a; cases b) (simp_all add: fadd_def fp_round_nonneg)

lemma fp_nonneg_square: "s \<noteq> NaN \<Longrightarrow> fp_nonneg (fmul s s)"
  by (cases s) (simp_all add: fmul_def fp_round_nonneg fp_inf_def)

lemma fp_nonneg_abs: "s \<noteq> NaN \<Longrightarrow> fp_nonneg (fp_abs s)"
  by (cases s) simp_all

lemma fsub_self: "fsub (Fin r) (Fin r) = Fin 0"
  by (simp add: fsub_def fp_sub_def fp_round_0)

lemma fsub_finite_not_NaN: "fsub (Fin a) (Fin b) \<noteq> NaN"
  by (simp add: fsub_def fp_sub_def fp_round_not_NaN)

lemma float_of_int_finite:
  "\<bar>n\<bar> \<le> 2 ^ 16 \<Longrightarrow> \<exists>r. float_of_int n = Fin r \<and> \<bar>r\<bar> \<le> 2 ^ 17"
  using fp_round_finite [of "of_int n" "2 ^ 16" binary32]
  by (simp add: float_of_int_def fp_of_int_def binary32_def)

lemma half_lit: "float_lit (1 / 2) = Fin (1 / 2)"
  by (simp add: float_lit_def fp_eval)

lemma packedIntensity_finite: "\<exists>r. packedIntensity w = Fin r"
proof -
  have b: "\<bar>sint (x :: 16 word)\<bar> \<le> 2 ^ 16" for x
    using sint_range_size [of x] by (simp add: word_size abs_if)
  obtain a where a: "float_of_int (sint (fst w)) = Fin a" "\<bar>a\<bar> \<le> 2 ^ 17"
    using float_of_int_finite [OF b] by blast
  obtain c where c: "float_of_int (sint (snd w)) = Fin c" "\<bar>c\<bar> \<le> 2 ^ 17"
    using float_of_int_finite [OF b] by blast
  obtain a' where a': "fp_round binary32 (a * (1 / 2)) = Fin a'" "\<bar>a'\<bar> \<le> 2 * 2 ^ 17"
    using fp_round_finite [of "a * (1 / 2)" "2 ^ 17" binary32] a(2)
    by (auto simp: binary32_def)
  obtain c' where c': "fp_round binary32 (c * (1 / 2)) = Fin c'" "\<bar>c'\<bar> \<le> 2 * 2 ^ 17"
    using fp_round_finite [of "c * (1 / 2)" "2 ^ 17" binary32] c(2)
    by (auto simp: binary32_def)
  have "\<bar>a' + c'\<bar> \<le> 2 ^ 19"
    using a'(2) c'(2) by simp
  then obtain s where "fp_round binary32 (a' + c') = Fin s" "\<bar>s\<bar> \<le> 2 * 2 ^ 19"
    using fp_round_finite [of "a' + c'" "2 ^ 19" binary32]
    by (auto simp: binary32_def)
  then show ?thesis
    using a c a' c' by (simp add: packedIntensity_def half_lit fmul_def fadd_def)
qed


lemma uint8_finite: "\<exists>r. float_of_int (uint (a :: 8 word)) = Fin r"
proof -
  have "uint a < 2 ^ 8" using uint_bounded [of a] by simp
  then have "\<bar>uint a\<bar> \<le> 2 ^ 16" by simp
  then show ?thesis using float_of_int_finite by blast
qed

lemma pixelDiff_self:
  assumes "supported W" "finiteWindow W" "v < image_rows W" "u < image_cols W"
  shows "pixelDiff W W v u = Some (Fin 0)"
proof (cases W)
  case (Mat8U m)
  obtain r where "float_of_int (uint (px m v u)) = Fin r"
    using uint8_finite by blast
  then show ?thesis by (simp add: Mat8U fsub_self)
next
  case (Mat16U m)
  then show ?thesis using assms(1) by simp
next
  case (Mat32F m)
  then have "uIsFinite (px m v u)"
    using assms by simp
  then obtain r where "px m v u = Fin r"
    by (cases "px m v u") auto
  then show ?thesis by (simp add: Mat32F fsub_self)
next
  case (Mat16SC2 m)
  obtain r where "packedIntensity (px m v u) = Fin r"
    using packedIntensity_finite by blast
  then show ?thesis by (simp add: Mat16SC2 fsub_self)
qed

lemma pixelDiff_not_NaN:
  assumes "windowsMatch L R" "finiteWindow L" "finiteWindow R"
    "v < image_rows L" "u < image_cols L"
  shows "\<exists>s. pixelDiff L R v u = Some s \<and> s \<noteq> NaN"
proof (cases L)
  case L: (Mat8U l)
  then obtain r where R: "R = Mat8U r"
    using assms(1) by (cases R) (auto simp: windowsMatch_def)
  obtain a b where "float_of_int (uint (px l v u)) = Fin a" "float_of_int (uint (px r v u)) = Fin b"
    using uint8_finite by blast
  then show ?thesis by (simp add: L R fsub_finite_not_NaN)
next
  case L: (Mat16U l)
  then show ?thesis using assms(1) by (simp add: windowsMatch_def)
next
  case L: (Mat32F l)
  then obtain r where R: "R = Mat32F r"
    using assms(1) by (cases R) (auto simp: windowsMatch_def)
  have "uIsFinite (px l v u)" "uIsFinite (px r v u)"
    using assms L R by (auto simp: windowsMatch_def)
  then obtain a b where "px l v u = Fin a" "px r v u = Fin b"
    by (cases "px l v u"; cases "px r v u") auto
  then show ?thesis by (simp add: L R fsub_finite_not_NaN)
next
  case L: (Mat16SC2 l)
  then obtain r where R: "R = Mat16SC2 r"
    using assms(1) by (cases R) (auto simp: windowsMatch_def)
  obtain a b where "packedIntensity (px l v u) = Fin a" "packedIntensity (px r v u) = Fin b"
    using packedIntensity_finite by blast
  then show ?thesis by (simp add: L R fsub_finite_not_NaN)
qed

lemma foldl_invariant:
  "P s \<Longrightarrow> (\<And>s x. x \<in> set xs \<Longrightarrow> P s \<Longrightarrow> P (f s x)) \<Longrightarrow> P (foldl f s xs)"
  by (induction xs arbitrary: s) simp_all

lemma supported_match: "supported W \<Longrightarrow> windowsMatch W W"
  by (cases W) (simp_all add: windowsMatch_def)

lemma zero_step: "fadd (Fin 0) (fmul (Fin 0) (Fin 0)) = Fin 0" "fadd (Fin 0) (Fin 0) = Fin 0"
  by (simp_all add: fadd_def fmul_def fp_round_0)

lemma ssd_self:
  assumes "supported W" "finiteWindow W"
  shows "ssd W W = Inr (Fin 0)"
proof -
  have "foldl (\<lambda>score (v, u). case pixelDiff W W v u of
            Some s \<Rightarrow> fadd score (fmul s s) | None \<Rightarrow> score)
          (Fin 0) (scanOrder (image_rows W) (image_cols W)) = Fin 0"
    by (rule foldl_invariant [where P = "\<lambda>s. s = Fin 0"])
       (auto simp: set_scanOrder pixelDiff_self [OF assms] zero_step)
  then show ?thesis
    using supported_match [OF assms(1)] by (simp add: ssd_def)
qed

lemma sad_self:
  assumes "supported W" "finiteWindow W"
  shows "sad W W = Inr (Fin 0)"
proof -
  have "foldl (\<lambda>score (v, u). case pixelDiff W W v u of
            Some s \<Rightarrow> fadd score (fp_abs s) | None \<Rightarrow> score)
          (Fin 0) (scanOrder (image_rows W) (image_cols W)) = Fin 0"
    by (rule foldl_invariant [where P = "\<lambda>s. s = Fin 0"])
       (auto simp: set_scanOrder pixelDiff_self [OF assms] zero_step)
  then show ?thesis
    using supported_match [OF assms(1)] by (simp add: sad_def)
qed

lemma ssd_nonneg:
  assumes "windowsMatch L R" "finiteWindow L" "finiteWindow R"
  shows "\<exists>a. ssd L R = Inr a \<and> fp_nonneg a"
proof -
  have "fp_nonneg (foldl (\<lambda>score (v, u). case pixelDiff L R v u of
            Some s \<Rightarrow> fadd score (fmul s s) | None \<Rightarrow> score)
          (Fin 0) (scanOrder (image_rows L) (image_cols L)))"
  proof (rule foldl_invariant [where P = fp_nonneg])
    show "fp_nonneg (Fin 0)" by simp
  next
    fix s x assume x: "x \<in> set (scanOrder (image_rows L) (image_cols L))" and s: "fp_nonneg s"
    obtain v u where vu: "x = (v, u)" by (cases x)
    obtain d where "pixelDiff L R v u = Some d" "d \<noteq> NaN"
      using pixelDiff_not_NaN [OF assms, of v u] x vu by (auto simp: set_scanOrder)
    then show "fp_nonneg (case x of (v, u) \<Rightarrow> case pixelDiff L R v u of
            Some d \<Rightarrow> fadd s (fmul d d) | None \<Rightarrow> s)"
      using s by (simp add: vu fp_nonneg_fadd fp_nonneg_square)
  qed
  then show ?thesis
    using assms(1) by (simp add: ssd_def)
qed

lemma sad_nonneg:
  assumes "windowsMatch L R" "finiteWindow L" "finiteWindow R"
  shows "\<exists>a. sad L R = Inr a \<and> fp_nonneg a"
proof -
  have "fp_nonneg (foldl (\<lambda>score (v, u). case pixelDiff L R v u of
            Some s \<Rightarrow> fadd score (fp_abs s) | None \<Rightarrow> score)
          (Fin 0) (scanOrder (image_rows L) (image_cols L)))"
  proof (rule foldl_invariant [where P = fp_nonneg])
    show "fp_nonneg (Fin 0)" by simp
  next
    fix s x assume x: "x \<in> set (scanOrder (image_rows L) (image_cols L))" and s: "fp_nonneg s"
    obtain v u where vu: "x = (v, u)" by (cases x)
    obtain d where "pixelDiff L R v u = Some d" "d \<noteq> NaN"
      using pixelDiff_not_NaN [OF assms, of v u] x vu by (auto simp: set_scanOrder)
    then show "fp_nonneg (case x of (v, u) \<Rightarrow> case pixelDiff L R v u of
            Some d \<Rightarrow> fadd s (fp_abs d) | None \<Rightarrow> s)"
      using s by (simp add: vu fp_nonneg_fadd fp_nonneg_abs)
  qed
  then show ?thesis
    using assms(1) by (simp add: sad_def)
qed

text \<open>A non-finite sample of a 32-bit float window differs from itself by NaN, and a
  score that is NaN stays NaN.\<close>

lemma fsub_self_float: "fsub p p = (if uIsFinite p then Fin 0 else NaN)"
  by (cases p) (simp_all add: fsub_def fp_sub_def fp_round_0)

lemma fadd_NaN: "fadd NaN a = NaN" "fadd a NaN = NaN"
  by (cases a; simp add: fadd_def)+

lemma fmul_NaN: "fmul NaN NaN = NaN"
  by (simp add: fmul_def)

lemma foldl_self_score:
  assumes "\<And>a. g NaN a = NaN" "g (Fin 0) (Fin 0) = Fin 0" "g (Fin 0) NaN = NaN"
    and "s = Fin 0 \<or> s = NaN"
  shows "foldl (\<lambda>score (v, u). case pixelDiff (Mat32F m) (Mat32F m) v u of
            Some d \<Rightarrow> g score d | None \<Rightarrow> score) s ps =
         (if s = NaN \<or> (\<exists>(v, u) \<in> set ps. \<not> uIsFinite (px m v u)) then NaN else Fin 0)"
  using assms(4)
proof (induction ps arbitrary: s)
  case Nil
  then show ?case by auto
next
  case (Cons p ps)
  obtain v u where p: "p = (v, u)" by (cases p)
  let ?s = "g s (fsub (px m v u) (px m v u))"
  have s': "?s = (if s = NaN \<or> \<not> uIsFinite (px m v u) then NaN else Fin 0)"
    using Cons.prems assms(1-3) by (auto simp: fsub_self_float)
  then have "?s = Fin 0 \<or> ?s = NaN" by auto
  from Cons.IH [OF this] show ?case
    by (simp add: p s')
qed

lemma nonfinite_window:
  assumes "\<not> finiteWindow W"
  obtains m where "W = Mat32F m"
    "\<exists>(v, u) \<in> set (scanOrder (rows m) (cols m)). \<not> uIsFinite (px m v u)"
  using assms by (cases W) (auto simp: set_scanOrder)

lemma ssd_nonfinite:
  assumes "\<not> finiteWindow W"
  shows "ssd W W = Inr NaN"
proof -
  obtain m where W: "W = Mat32F m" and
    n: "\<exists>(v, u) \<in> set (scanOrder (rows m) (cols m)). \<not> uIsFinite (px m v u)"
    using assms by (rule nonfinite_window)
  have "foldl (\<lambda>score (v, u). case pixelDiff (Mat32F m) (Mat32F m) v u of
            Some d \<Rightarrow> (\<lambda>a b. fadd a (fmul b b)) score d | None \<Rightarrow> score) (Fin 0)
          (scanOrder (rows m) (cols m)) = NaN"
    using n by (subst foldl_self_score) (simp_all add: fadd_NaN fmul_NaN zero_step)
  then show ?thesis
    by (simp add: ssd_def W windowsMatch_def)
qed

lemma sad_nonfinite:
  assumes "\<not> finiteWindow W"
  shows "sad W W = Inr NaN"
proof -
  obtain m where W: "W = Mat32F m" and
    n: "\<exists>(v, u) \<in> set (scanOrder (rows m) (cols m)). \<not> uIsFinite (px m v u)"
    using assms by (rule nonfinite_window)
  have "foldl (\<lambda>score (v, u). case pixelDiff (Mat32F m) (Mat32F m) v u of
            Some d \<Rightarrow> (\<lambda>a b. fadd a (fp_abs b)) score d | None \<Rightarrow> score) (Fin 0)
          (scanOrder (rows m) (cols m)) = NaN"
    using n by (subst foldl_self_score) (simp_all add: fadd_NaN zero_step)
  then show ?thesis
    by (simp add: sad_def W windowsMatch_def)
qed

text \<open>
  C9, as amended. For every window \<open>W\<close> of a supported encoding (8-bit gray, 32-bit
  float, packed dual 16-bit) whose samples are finite (which the integer encodings always
  are), \<open>ssd W W\<close> and \<open>sad W W\<close> are 0; for every pair of windows of equal shape
  and equal supported encoding with finite samples, \<open>ssd\<close> and \<open>sad\<close> return a score that
  is not negative (a finite value \<open>\<ge> 0\<close>, or \<open>+\<infinity>\<close> on overflow); and for every window
  \<open>W\<close> with a sample that is not finite (a 32-bit float window holding a NaN or an
  infinity), \<open>ssd W W\<close> and \<open>sad W W\<close> are NaN.
\<close>

theorem ssd_sad_scores:
  "(supported W \<and> finiteWindow W \<longrightarrow> ssd W W = Inr (Fin 0) \<and> sad W W = Inr (Fin 0)) \<and>
   (windowsMatch L R \<and> finiteWindow L \<and> finiteWindow R \<longrightarrow>
      (\<exists>a b. ssd L R = Inr a \<and> fp_nonneg a \<and> sad L R = Inr b \<and> fp_nonneg b)) \<and>
   (\<not> finiteWindow N \<longrightarrow> ssd N N = Inr NaN \<and> sad N N = Inr NaN)"
proof -
  have 1: "supported W \<and> finiteWindow W \<longrightarrow> ssd W W = Inr (Fin 0) \<and> sad W W = Inr (Fin 0)"
    by (simp add: ssd_self sad_self)
  have 2: "windowsMatch L R \<and> finiteWindow L \<and> finiteWindow R \<longrightarrow>
      (\<exists>a b. ssd L R = Inr a \<and> fp_nonneg a \<and> sad L R = Inr b \<and> fp_nonneg b)"
    using ssd_nonneg [of L R] sad_nonneg [of L R] by blast
  have 3: "\<not> finiteWindow N \<longrightarrow> ssd N N = Inr NaN \<and> sad N N = Inr NaN"
    by (simp add: ssd_nonfinite sad_nonfinite)
  show ?thesis
    by (rule conjI [OF 1 conjI [OF 2 3]])
qed

lemma scanOrder_1_2: "scanOrder (Suc 0) 2 = [(0, 0), (0, 1)]"
  by (simp add: scanOrder_def numeral_2_eq_2)

lemma infWindow_nonfinite: "\<not> finiteWindow infWindow"
proof -
  have "\<not> uIsFinite (px \<lparr>rows = 1, cols = 2, px = (\<lambda>v u. if u = 0 then Fin 1 else PInf)\<rparr> 0 1)"
    by simp
  then have "\<exists>v<1::nat. \<exists>u<2::nat.
      \<not> uIsFinite (px \<lparr>rows = 1, cols = 2, px = (\<lambda>v u. if u = 0 then Fin 1 else PInf)\<rparr> v u)"
    by (intro exI [of _ 0] exI [of _ 1] conjI) simp_all
  then show ?thesis
    by (simp add: infWindow_def)
qed

lemma rampWindow_ok:
  "supported rampWindow" "finiteWindow rampWindow" "finiteWindow stepWindow"
  "windowsMatch rampWindow stepWindow"
  by (simp_all add: rampWindow_def stepWindow_def windowsMatch_def)

lemma ramp_step_scores:
  "ssd rampWindow stepWindow = Inr (Fin 5)" "sad rampWindow stepWindow = Inr (Fin 3)"
  by (simp_all add: ssd_def sad_def rampWindow_def stepWindow_def windowsMatch_def scanOrder_1_2
      f32_eval)

theorem ssd_sad_scores_witness:
  "supported rampWindow \<and> finiteWindow rampWindow \<and>
   ssd rampWindow rampWindow = Inr (Fin 0) \<and> sad rampWindow rampWindow = Inr (Fin 0) \<and>
   windowsMatch rampWindow stepWindow \<and> finiteWindow stepWindow \<and>
   ssd rampWindow stepWindow = Inr (Fin 5) \<and> sad rampWindow stepWindow = Inr (Fin 3) \<and>
   fp_nonneg (Fin 5) \<and> fp_nonneg (Fin 3) \<and>
   \<not> finiteWindow infWindow \<and>
   ssd infWindow infWindow = Inr NaN \<and> sad infWindow infWindow = Inr NaN"
  using ssd_sad_scores [of rampWindow rampWindow stepWindow infWindow]
  by (simp add: rampWindow_ok infWindow_nonfinite ramp_step_scores)

text \<open>The claim as stated fails on a 32-bit float window that holds a NaN or an infinity:
  the score of the window against itself is NaN, neither 0 nor non-negative.\<close>

theorem ssd_sad_nan_counterexample:
  "ssd nanWindow nanWindow = Inr NaN \<and> sad nanWindow nanWindow = Inr NaN \<and>
   ssd infWindow infWindow = Inr NaN \<and> sad infWindow infWindow = Inr NaN \<and>
   supported nanWindow \<and> supported infWindow \<and> NaN \<noteq> Fin 0 \<and> \<not> fp_nonneg NaN"
  by (simp add: ssd_def sad_def nanWindow_def infWindow_def windowsMatch_def scanOrder_1_1
      scanOrder_1_2 fsub_def fp_sub_def fadd_def fmul_def fp_round_0)

section \<open>getDepth outside the image\<close>

text \<open>
  C10. When the query, rounded to a pixel as the code does (\<open>x + 0.5\<close> and \<open>y + 0.5\<close> in
  single precision, truncated to \<^verbatim>\<open>int\<close>), lies outside the bounds of a depth image
  of either depth type, \<open>getDepth\<close> returns 0 and reads no sample of the image. This
  holds for every coordinate: a coordinate that is NaN, infinite or beyond the range of
  \<^verbatim>\<open>int\<close> rounds to the pixel \<open>-2^31\<close>, outside of every image.
\<close>

theorem getDepth_out_of_bounds:
  assumes "depthImageOk depthImage"
    and "\<not> insideImage depthImage (roundToPixel x) (roundToPixel y)"
  shows "getDepth depthImage x y smoothing maxZError = Inr (Fin 0, [])"
  using assms by (simp add: getDepth_def depthImageOk_def)

lemma round_7: "roundToPixel (Fin 7) = 7"
  by (simp add: roundToPixel_def f32_eval)

lemma round_m2: "roundToPixel (Fin (- 2)) = - 1"
  by (simp add: roundToPixel_def f32_eval)

lemma round_1: "roundToPixel (Fin 1) = 1"
  by (simp add: roundToPixel_def f32_eval)

lemma round_NaN: "roundToPixel NaN = - (2 ^ 31)"
  by (simp add: roundToPixel_def f32_eval)

lemma round_huge: "roundToPixel (Fin 1099511627776) = - (2 ^ 31)"
  by (simp add: roundToPixel_def f32_eval)

lemma flatDepth_ok: "depthImageOk flatDepthMM" "depthImageOk flatDepthM"
  by (simp_all add: depthImageOk_def flatDepthMM_def flatDepthM_def)

lemma flatDepth_inside:
  "insideImage flatDepthMM u v = (0 \<le> u \<and> u < 4 \<and> 0 \<le> v \<and> v < 4)"
  "insideImage flatDepthM u v = (0 \<le> u \<and> u < 4 \<and> 0 \<le> v \<and> v < 4)"
  by (simp_all add: insideImage_def flatDepthMM_def flatDepthM_def)

theorem getDepth_out_of_bounds_witness:
  "depthImageOk flatDepthMM \<and> depthImageOk flatDepthM \<and>
   roundToPixel (Fin 7) = 7 \<and> roundToPixel (Fin 1) = 1 \<and> roundToPixel (Fin (- 2)) = - 1 \<and>
   getDepth flatDepthMM (Fin 7) (Fin 1) True (Fin 1) = Inr (Fin 0, []) \<and>
   getDepth flatDepthM (Fin 1) (Fin (- 2)) False (Fin 1) = Inr (Fin 0, []) \<and>
   getDepth flatDepthM NaN (Fin 1) True (Fin 1) = Inr (Fin 0, []) \<and>
   getDepth flatDepthMM (Fin 1) (Fin 1099511627776) False (Fin 1) = Inr (Fin 0, [])"
  using getDepth_out_of_bounds [of flatDepthMM "Fin 7" "Fin 1" True "Fin 1"]
    getDepth_out_of_bounds [of flatDepthM "Fin 1" "Fin (- 2)" False "Fin 1"]
    getDepth_out_of_bounds [of flatDepthM NaN "Fin 1" True "Fin 1"]
    getDepth_out_of_bounds [of flatDepthMM "Fin 1" "Fin 1099511627776" False "Fin 1"]
  by (simp add: flatDepth_ok flatDepth_inside round_7 round_1 round_m2 round_NaN round_huge)

section \<open>The order of the pixel loops\<close>

lemma at_set_commute:
  "(i, j) \<noteq> (i', j') \<Longrightarrow>
   at_set (at_set img i j v) i' j' v' = at_set (at_set img i' j' v') i j v"
  by (auto simp: at_set_def fun_eq_iff)

lemma convertPixels_order:
  assumes "mset ps = mset qs"
  shows "convertPixels f ps s = convertPixels f qs s"
proof -
  let ?F = "\<lambda>(i, j) (img, n).
             case f i j of
               (Some v, k) \<Rightarrow> (at_set img i j v, n + k)
             | (None, k) \<Rightarrow> (img, n + (k::nat))"
  have c: "?F p \<circ> ?F q = ?F q \<circ> ?F p" for p q
  proof (cases "p = q")
    case True
    then show ?thesis by simp
  next
    case False
    obtain i j i' j' where pq: "p = (i, j)" "q = (i', j')"
      by (cases p; cases q) auto
    with False have ne: "(i, j) \<noteq> (i', j')" by simp
    show ?thesis
    proof (rule ext)
      fix s :: "(nat \<Rightarrow> nat \<Rightarrow> 'a) \<times> nat"
      obtain img n where s: "s = (img, n)" by (cases s)
      show "(?F p \<circ> ?F q) s = (?F q \<circ> ?F p) s"
        by (simp add: pq s at_set_commute [OF ne] split: prod.splits option.splits)
    qed
  qed
  have "fold ?F ps = fold ?F qs"
    by (rule fold_multiset_equiv [OF _ assms]) (rule c)
  then show ?thesis
    by (simp add: convertPixels_def)
qed

lemma cvtDepthFromFloat_order:
  assumes "mset ps = mset (scanOrder (image_rows depth32F) (image_cols depth32F))"
  shows "cvtDepthFromFloatIn ps depth32F = cvtDepthFromFloat depth32F"
proof (cases depth32F)
  case (Mat32F m)
  then have "mset ps = mset (scanOrder (rows m) (cols m))"
    using assms by simp
  then show ?thesis
    by (simp add: Mat32F cvtDepthFromFloat_def convertPixels_order [OF \<open>mset ps = mset (scanOrder (rows m) (cols m))\<close>])
qed (simp_all add: cvtDepthFromFloat_def)

lemma cvtDepthToFloat_order:
  assumes "mset ps = mset (scanOrder (image_rows depth16U) (image_cols depth16U))"
  shows "cvtDepthToFloatIn ps depth16U = cvtDepthToFloat depth16U"
proof (cases depth16U)
  case (Mat16U m)
  then have "mset ps = mset (scanOrder (rows m) (cols m))"
    using assms by simp
  then show ?thesis
    by (simp add: Mat16U cvtDepthToFloat_def convertPixels_order [OF \<open>mset ps = mset (scanOrder (rows m) (cols m))\<close>])
qed (simp_all add: cvtDepthToFloat_def)

lemma depthFromDisparity_order:
  assumes "mset ps = mset (scanOrder (disparity_rows disparity) (disparity_cols disparity))"
  shows "depthFromDisparityIn ps disparity fx baseline inMM =
         depthFromDisparity disparity fx baseline inMM"
  by (simp add: depthFromDisparity_def depthFromDisparityIn_def convertPixels_order [OF assms])

lemma zWrite_commute:
  "a \<noteq> 0 \<Longrightarrow> b \<noteq> 0 \<Longrightarrow> zWrite (zWrite z a) b = zWrite (zWrite z b) a"
  by (auto simp: zWrite_def)

lemma registerPixel_commute:
  assumes "\<And>dy dx. projectPixel depthK colorK proj (rows depth) (cols depth) y x (px depth y x)
             \<noteq> Some (dy, dx, 0)"
    and "\<And>dy dx. projectPixel depthK colorK proj (rows depth) (cols depth) y' x' (px depth y' x')
             \<noteq> Some (dy, dx, 0)"
  shows "registerPixel depth depthK colorK proj y x (registerPixel depth depthK colorK proj y' x' reg) =
         registerPixel depth depthK colorK proj y' x' (registerPixel depth depthK colorK proj y x reg)"
proof (cases "projectPixel depthK colorK proj (rows depth) (cols depth) y x (px depth y x)")
  case None
  then show ?thesis by (simp add: registerPixel_def)
next
  case a: (Some t)
  obtain dy dx z where t: "t = (dy, dx, z)" by (cases t)
  have z: "z \<noteq> 0" using assms(1) [of dy dx] a t by auto
  show ?thesis
  proof (cases "projectPixel depthK colorK proj (rows depth) (cols depth) y' x' (px depth y' x')")
    case None
    then show ?thesis by (simp add: registerPixel_def)
  next
    case b: (Some t')
    obtain dy' dx' z' where t': "t' = (dy', dx', z')" by (cases t')
    have z': "z' \<noteq> 0" using assms(2) [of dy' dx'] b t' by auto
    show ?thesis
    proof (cases "(dy, dx) = (dy', dx')")
      case True
      then show ?thesis
        using zWrite_commute [OF z z', of "reg dy dx"]
        by (simp add: registerPixel_def a b t t' at_set_def)
    next
      case False
      then show ?thesis
        by (auto simp: registerPixel_def a b t t' at_set_def fun_eq_iff)
    qed
  qed
qed

lemma registerDepth_order:
  assumes "mset ps = mset (scanOrder (rows depth) (cols depth))"
    and "noZeroProjection (scanOrder (rows depth) (cols depth)) depth depthK colorK transform"
  shows "registerDepthIn ps depth depthK colorK transform =
         registerDepth depth depthK colorK transform"
proof -
  let ?F = "\<lambda>(y, x). registerPixel depth depthK colorK (coef transform) y x"
  have s: "set ps = set (scanOrder (rows depth) (cols depth))"
    using assms(1) by (rule mset_eq_setD)
  have c: "?F p \<circ> ?F q = ?F q \<circ> ?F p" if "p \<in> set ps" "q \<in> set ps" for p q
  proof -
    obtain y x y' x' where pq: "p = (y, x)" "q = (y', x')"
      by (cases p; cases q) auto
    have "\<And>dy dx. projectPixel depthK colorK (coef transform) (rows depth) (cols depth) y x
             (px depth y x) \<noteq> Some (dy, dx, 0)"
      "\<And>dy dx. projectPixel depthK colorK (coef transform) (rows depth) (cols depth) y' x'
             (px depth y' x') \<noteq> Some (dy, dx, 0)"
      using assms(2) that s by (auto simp: noZeroProjection_def pq)
    then show ?thesis
      by (simp add: pq fun_eq_iff registerPixel_commute)
  qed
  have "fold ?F ps = fold ?F (scanOrder (rows depth) (cols depth))"
    by (rule fold_multiset_equiv [OF _ assms(1)]) (rule c)
  then show ?thesis
    by (simp add: registerDepth_def registerDepthIn_def)
qed


text \<open>
  C8, as amended. Of the pixel loops of sections 4.4 to 4.6, those of
  \<open>cvtDepthFromFloat\<close>, \<open>cvtDepthToFloat\<close> and \<open>depthFromDisparity\<close> give the same image
  and the same overflow count in whatever order the pixels are visited; the loop of
  \<open>registerDepth\<close> gives the same image in whatever order the source pixels are visited
  when no source pixel is projected onto the image with a depth of 0 mm; the loop of
  \<open>fillRegisteredDepthHoles\<close> gives the same image in whatever order the columns are
  scanned when \<open>horizontal\<close> is unset.
\<close>

theorem pixel_loops_order:
  "(mset ps = mset (scanOrder (image_rows depth32F) (image_cols depth32F)) \<longrightarrow>
      cvtDepthFromFloatIn ps depth32F = cvtDepthFromFloat depth32F) \<and>
   (mset qs = mset (scanOrder (image_rows depth16U) (image_cols depth16U)) \<longrightarrow>
      cvtDepthToFloatIn qs depth16U = cvtDepthToFloat depth16U) \<and>
   (mset rs = mset (scanOrder (disparity_rows disparity) (disparity_cols disparity)) \<longrightarrow>
      depthFromDisparityIn rs disparity fx baseline inMM =
      depthFromDisparity disparity fx baseline inMM) \<and>
   (mset ss = mset (scanOrder (rows depth) (cols depth)) \<and>
    noZeroProjection (scanOrder (rows depth) (cols depth)) depth depthK colorK transform \<longrightarrow>
      registerDepthIn ss depth depthK colorK transform =
      registerDepth depth depthK colorK transform) \<and>
   (mset xs = mset [1 ..< cols registeredDepth - (if fillDoubleHoles then 2 else 1)] \<longrightarrow>
      fillColumns vertical False fillDoubleHoles xs registeredDepth =
      fillRegisteredDepthHoles registeredDepth vertical False fillDoubleHoles)"
proof -
  have "mset xs = mset [1 ..< cols registeredDepth - (if fillDoubleHoles then 2 else 1)] \<longrightarrow>
      fillColumns vertical False fillDoubleHoles xs registeredDepth =
      fillRegisteredDepthHoles registeredDepth vertical False fillDoubleHoles"
    unfolding fillRegisteredDepthHoles_def by (intro impI fillColumns_vertical_any_order)
  then show ?thesis
    using cvtDepthFromFloat_order cvtDepthToFloat_order depthFromDisparity_order
      registerDepth_order by blast
qed

lemma reversed_orders:
  "mset [(0, 1), (0, 0)] = mset (scanOrder (image_rows rampWindow) (image_cols rampWindow))"
  "mset [(0, 2), (0, 1), (0, 0)] =
     mset (scanOrder (image_rows (Mat16U nearDepth)) (image_cols (Mat16U nearDepth)))"
  "mset [(0, 1), (0, 0)] =
     mset (scanOrder (disparity_rows rampDisparity) (disparity_cols rampDisparity))"
  "mset [(0, 2), (0, 1), (0, 0)] = mset (scanOrder (rows collDepth) (cols collDepth))"
  "mset [(0, 2), (0, 1), (0, 0)] = mset (scanOrder (rows nearDepth) (cols nearDepth))"
  "mset [2, 1] = mset [1 ..< cols crossMap - 1]"
  by (simp_all add: rampWindow_def nearDepth_def rampDisparity_def collDepth_def crossMap_def
      scanOrder_1_2 scanOrder_1_3 upt_1_3 add_mset_commute)

lemma noZeroProjection_coll:
  "noZeroProjection (scanOrder (rows collDepth) (cols collDepth)) collDepth wideK unitK nearShift"
  using project_near_0 project_coll_1 project_near_2
  by (simp add: noZeroProjection_def scanOrder_1_3 collDepth_def)

theorem pixel_loops_order_witness:
  "mset [(0, 1), (0, 0)] = mset (scanOrder (image_rows rampWindow) (image_cols rampWindow)) \<and>
   cvtDepthFromFloatIn [(0, 1), (0, 0)] rampWindow = cvtDepthFromFloat rampWindow \<and>
   cvtDepthToFloatIn [(0, 2), (0, 1), (0, 0)] (Mat16U nearDepth) =
     cvtDepthToFloat (Mat16U nearDepth) \<and>
   depthFromDisparityIn [(0, 1), (0, 0)] rampDisparity (Fin 1) (Fin 1) True =
     depthFromDisparity rampDisparity (Fin 1) (Fin 1) True \<and>
   noZeroProjection (scanOrder (rows collDepth) (cols collDepth)) collDepth wideK unitK nearShift \<and>
   registerDepthIn [(0, 2), (0, 1), (0, 0)] collDepth wideK unitK nearShift =
     registerDepth collDepth wideK unitK nearShift \<and>
   mset [2, 1] = mset [1 ..< cols crossMap - 1] \<and>
   fillColumns True False False [2, 1] crossMap =
     fillRegisteredDepthHoles crossMap True False False"
  using pixel_loops_order [of "[(0, 1), (0, 0)]" rampWindow
      "[(0, 2), (0, 1), (0, 0)]" "Mat16U nearDepth"
      "[(0, 1), (0, 0)]" rampDisparity "Fin 1" "Fin 1" True
      "[(0, 2), (0, 1), (0, 0)]" collDepth wideK unitK nearShift
      "[2, 1]" crossMap False True, unfolded if_False]
    reversed_orders noZeroProjection_coll
  by blast

text \<open>The claim as stated fails. In \<open>fillRegisteredDepthHoles\<close> with both directions
  enabled, pixel (1,2) is filled from pixel (1,1), itself filled earlier in the same
  call; scanning the two columns in the other order leaves pixel (1,2) empty. In
  \<open>registerDepth\<close>, depths of 5, 0 and 7 mm projected onto pixel (0,0) leave 7 mm in scan
  order and 5 mm when the source pixels are visited from right to left.\<close>

lemma registerDepth_near_reordered:
  "registerDepthIn [(0, 2), (0, 1), (0, 0)] nearDepth wideK unitK nearShift = Inr nearReordered"
  using project_near_0 project_near_1 project_near_2
  by (simp add: registerDepthIn_def registerPixel_def nearDepth_def not_null
      at_set_def zWrite_def nearReordered_def fun_eq_iff)

theorem pixel_loops_order_counterexample:
  "fillRegisteredDepthHoles crossMap True True False = fillColumns True True False [1, 2] crossMap \<and>
   px (fillColumns True True False [1, 2] crossMap) 1 2 = 1000 \<and>
   px (fillColumns True True False [2, 1] crossMap) 1 2 = 0 \<and>
   registerDepth nearDepth wideK unitK nearShift = Inr nearRegistered \<and>
   registerDepthIn [(0, 2), (0, 1), (0, 0)] nearDepth wideK unitK nearShift = Inr nearReordered \<and>
   mset [(0, 2), (0, 1), (0, 0)] = mset (scanOrder (rows nearDepth) (cols nearDepth)) \<and>
   px nearRegistered 0 0 = 7 \<and> px nearReordered 0 0 = 5"
  using crossMap_forward crossMap_backward crossMap_source_order registerDepth_near
    registerDepth_near_reordered reversed_orders(5)
  by (simp add: nearRegistered_def nearReordered_def nearDepth_def)

end
